theory Spec2Isabelle
  imports Main "HOL-Library.Multiset" "HOL-Library.Sublist"
begin

section \<open>Handoff markdown generation of cli-continues (utils/markdown.ts)\<close>

text \<open>
  A shallow embedding of \<^verbatim>\<open>utils/markdown.ts\<close> (the file \<^verbatim>\<open>src/unnamed/part_000\<close>):
  the display caps, the category ordering, the MCP namespace grouping, the category
  renderers and the document assembler \<^verbatim>\<open>generateHandoffMarkdown\<close>.

  Conventions of the embedding.
  \<^item> A JavaScript string is a \<^typ>\<open>string\<close>; one list element stands for one code unit.
    The two non-ASCII characters of the source (the em dash and the ellipsis) are the
    named constants \<open>emdash\<close> and \<open>ellipsis\<close>.
  \<^item> A JavaScript \<^verbatim>\<open>number\<close> that holds a count is an \<^typ>\<open>int\<close>; a display cap, which
    is only ever an argument of \<^verbatim>\<open>slice(0, n)\<close>, is a \<^typ>\<open>nat\<close>.
  \<^item> An optional field is an \<^typ>\<open>'a option\<close>; JavaScript truthiness is written out
    (\<open>truthyStr\<close>, \<open>truthyNum\<close>).
  \<^item> A \<^verbatim>\<open>Record<string, _>\<close> used as a table is a map or an association list with
    \<^const>\<open>map_of\<close>; a \<^verbatim>\<open>Map\<close> whose iteration order matters is an association list in
    insertion order. \<^verbatim>\<open>CATEGORY_ORDER\<close> is a plain object that is looked up with arbitrary
    tool names, so its lookup also finds the members inherited from \<^verbatim>\<open>Object.prototype\<close>.
  \<^item> A call that throws returns \<open>Inl\<close> of the error, a call that returns \<open>Inr\<close> of the
    value.
  \<^item> \<^verbatim>\<open>types/index.ts\<close> and \<^verbatim>\<open>types/tool-names.ts\<close> are not among the sources: the data
    types are taken from the fields the code reads, the canonical tool-name sets are a
    parameter \<open>sets\<close>, and the classifier \<^verbatim>\<open>classifyToolName\<close> is a parameter \<open>classify\<close>.
\<close>

subsection \<open>Strings and numbers\<close>

definition emdash :: string where
  "emdash = [CHR 0xE2, CHR 0x80, CHR 0x94]"

definition ellipsis :: string where
  "ellipsis = [CHR 0xE2, CHR 0x80, CHR 0xA6]"

text \<open>Template-literal rendering of an integral number: \<^verbatim>\<open>`${n}`\<close>.\<close>

definition digit :: "nat \<Rightarrow> char" where
  "digit d = ''0123456789'' ! d"

fun show_nat :: "nat \<Rightarrow> string" where
  "show_nat n = (if n < 10 then [digit n] else show_nat (n div 10) @ [digit (n mod 10)])"

declare show_nat.simps [simp del]

definition show_int :: "int \<Rightarrow> string" where
  "show_int i = (if i < 0 then ''-'' @ show_nat (nat (- i)) else show_nat (nat i))"

text \<open>\<^verbatim>\<open>s.split('\n')\<close>: never empty, \<^verbatim>\<open>''.split('\n')\<close> is \<^verbatim>\<open>['']\<close>.\<close>

fun consHead :: "char \<Rightarrow> string list \<Rightarrow> string list" where
  "consHead c [] = [c] # []"
| "consHead c (l # ls) = (c # l) # ls"

fun split_nl :: "string \<Rightarrow> string list" where
  "split_nl [] = [] # []"
| "split_nl (c # cs) = (if c = CHR 0x0A then [] # split_nl cs else consHead c (split_nl cs))"

text \<open>\<^verbatim>\<open>s.split('__')\<close>: the separator is matched leftmost, without overlap.\<close>

fun split_dunder :: "string \<Rightarrow> string list" where
  "split_dunder [] = [] # []"
| "split_dunder [a] = [a] # []"
| "split_dunder (a # b # cs) =
     (if a = CHR ''_'' \<and> b = CHR ''_'' then [] # split_dunder cs
      else consHead a (split_dunder (b # cs)))"

text \<open>\<^verbatim>\<open>xs.join(sep)\<close>.\<close>

fun join :: "string \<Rightarrow> string list \<Rightarrow> string" where
  "join sep [] = []"
| "join sep [l] = l"
| "join sep (l # m # ls) = l @ sep @ join sep (m # ls)"

text \<open>Truthiness of an optional string and of an optional number.\<close>

fun truthyStr :: "string option \<Rightarrow> bool" where
  "truthyStr None = False"
| "truthyStr (Some s) = (s \<noteq> [])"

fun truthyNum :: "int option \<Rightarrow> bool" where
  "truthyNum None = False"
| "truthyNum (Some n) = (n \<noteq> 0)"

subsection \<open>Data model (types/index.ts, as read by markdown.ts)\<close>

text \<open>
  Modelled from the spec: the type declarations of \<^verbatim>\<open>types/index.ts\<close> (\<^verbatim>\<open>ToolSample\<close>,
  \<^verbatim>\<open>StructuredToolSample\<close>, \<^verbatim>\<open>ToolUsageSummary\<close>) are not among the sources. The records
  follow the data model of the specification and carry the fields that the renderers
  read, under the names the renderers use.
\<close>

record DiffStats =
  added :: int
  removed :: int

record ShellData =
  command :: string
  exitCode :: "int option"
  errored :: bool
  stdoutTail :: "string option"
  errorMessage :: "string option"

record WriteData =
  wFilePath :: string
  isNewFile :: bool
  wDiff :: "string option"
  wDiffStats :: "DiffStats option"

record EditData =
  eFilePath :: string
  eDiff :: "string option"
  eDiffStats :: "DiffStats option"

record ReadData =
  rFilePath :: string
  lineStart :: "int option"
  lineEnd :: "int option"

record GrepData =
  gPattern :: string
  targetPath :: "string option"
  matchCount :: "int option"

record GlobData =
  globPattern :: string
  globResultCount :: "int option"

record SearchData =
  query :: string
  searchResultCount :: "int option"

record FetchData =
  url :: string
  resultPreview :: "string option"

record TaskData =
  description :: string
  agentType :: "string option"
  resultSummary :: "string option"

record AskData =
  question :: string

record McpData =
  toolName :: string
  params :: "string option"
  result :: "string option"

text \<open>
  \<^verbatim>\<open>StructuredToolSample\<close>: a union discriminated by its \<^verbatim>\<open>category\<close> field. The
  variants share some field names in the source (\<^verbatim>\<open>filePath\<close>, \<^verbatim>\<open>pattern\<close>, \<^verbatim>\<open>diff\<close>,
  \<^verbatim>\<open>diffStats\<close>, \<^verbatim>\<open>resultCount\<close>); the records above prefix them per variant.
\<close>

datatype StructuredToolSample =
    Shell ShellData
  | Write WriteData
  | Edit EditData
  | Read ReadData
  | Grep GrepData
  | Glob GlobData
  | Search SearchData
  | Fetch FetchData
  | Task TaskData
  | Ask AskData
  | Mcp McpData

fun category :: "StructuredToolSample \<Rightarrow> string" where
  "category (Shell _) = ''shell''"
| "category (Write _) = ''write''"
| "category (Edit _) = ''edit''"
| "category (Read _) = ''read''"
| "category (Grep _) = ''grep''"
| "category (Glob _) = ''glob''"
| "category (Search _) = ''search''"
| "category (Fetch _) = ''fetch''"
| "category (Task _) = ''task''"
| "category (Ask _) = ''ask''"
| "category (Mcp _) = ''mcp''"

record ToolSample =
  summary :: string
  data :: "StructuredToolSample option"

record ToolUsageSummary =
  name :: string
  count :: int
  errorCount :: "int option"
  samples :: "ToolSample list"

subsection \<open>Display caps\<close>

record DisplayCaps =
  shellDetailed :: nat
  shellStdoutLines :: nat
  writeEditDetailed :: nat
  writeEditDiffLines :: nat
  readEntries :: nat
  grepGlobSearchFetch :: nat
  mcpTaskAsk :: nat

definition INLINE_CAPS :: DisplayCaps where
  "INLINE_CAPS = \<lparr> shellDetailed = 5, shellStdoutLines = 3, writeEditDetailed = 3,
     writeEditDiffLines = 50, readEntries = 15, grepGlobSearchFetch = 8, mcpTaskAsk = 3 \<rparr>"

definition REFERENCE_CAPS :: DisplayCaps where
  "REFERENCE_CAPS = \<lparr> shellDetailed = 8, shellStdoutLines = 5, writeEditDetailed = 5,
     writeEditDiffLines = 200, readEntries = 20, grepGlobSearchFetch = 10, mcpTaskAsk = 5 \<rparr>"

text \<open>
  Line 175: \<^verbatim>\<open>mode === 'reference' ? REFERENCE_CAPS : INLINE_CAPS\<close>. The mode is the
  runtime string; the TypeScript type admits \<^verbatim>\<open>'inline'\<close> and \<^verbatim>\<open>'reference'\<close> only.
\<close>

definition capsForMode :: "string \<Rightarrow> DisplayCaps" where
  "capsForMode mode = (if mode = ''reference'' then REFERENCE_CAPS else INLINE_CAPS)"

subsection \<open>Category ordering\<close>

text \<open>The canonical tool-name sets of \<^verbatim>\<open>types/tool-names.ts\<close>, in iteration order.\<close>

record ToolNameSets =
  SHELL_TOOLS :: "string list"
  READ_TOOLS :: "string list"
  WRITE_TOOLS :: "string list"
  EDIT_TOOLS :: "string list"
  GREP_TOOLS :: "string list"
  GLOB_TOOLS :: "string list"
  SEARCH_TOOLS :: "string list"
  FETCH_TOOLS :: "string list"
  TASK_TOOLS :: "string list"
  TASK_OUTPUT_TOOLS :: "string list"
  ASK_TOOLS :: "string list"

definition orderMapping :: "ToolNameSets \<Rightarrow> (string list \<times> int) list" where
  "orderMapping sets =
     [(SHELL_TOOLS sets, 0), (WRITE_TOOLS sets, 1), (EDIT_TOOLS sets, 2), (READ_TOOLS sets, 3),
      (GREP_TOOLS sets, 4), (GLOB_TOOLS sets, 5), (SEARCH_TOOLS sets, 6), (FETCH_TOOLS sets, 7),
      (TASK_TOOLS sets, 8), (TASK_OUTPUT_TOOLS sets, 8), (ASK_TOOLS sets, 9)]"

text \<open>
  \<^verbatim>\<open>const order: Record<string, number> = {}\<close> is a plain object: besides the properties
  that \<^verbatim>\<open>buildCategoryOrder\<close> assigns, a lookup finds the members that every object
  inherits from \<^verbatim>\<open>Object.prototype\<close>, which are functions (and, for \<^verbatim>\<open>__proto__\<close>, the
  prototype object itself), not numbers. These are their names.
\<close>

definition objectPrototypeNames :: "string list" where
  "objectPrototypeNames =
     [''constructor'', ''hasOwnProperty'', ''isPrototypeOf'', ''propertyIsEnumerable'',
      ''toLocaleString'', ''toString'', ''valueOf'', ''__defineGetter__'',
      ''__defineSetter__'', ''__lookupGetter__'', ''__lookupSetter__'', ''__proto__'']"

text \<open>
  The two nested loops of \<^verbatim>\<open>buildCategoryOrder\<close>, which yield the own properties of the
  table: a later assignment overwrites, and an assignment of a number to \<^verbatim>\<open>__proto__\<close>
  creates no property.
\<close>

definition assignAll :: "(string \<rightharpoonup> int) \<Rightarrow> string list \<times> int \<Rightarrow> (string \<rightharpoonup> int)" where
  "assignAll order sp =
     foldl (\<lambda>ord nm. if nm = ''__proto__'' then ord else ord(nm \<mapsto> snd sp)) order (fst sp)"

definition buildCategoryOrder :: "ToolNameSets \<Rightarrow> (string \<rightharpoonup> int)" where
  "buildCategoryOrder sets = foldl assignAll Map.empty (orderMapping sets)"

text \<open>
  \<^verbatim>\<open>CATEGORY_ORDER[name] ?? 10\<close>: the number assigned to the name, otherwise the inherited
  member when the name is one of \<^verbatim>\<open>Object.prototype\<close> (it is neither null nor undefined,
  so the default does not apply), otherwise the default 10.
\<close>

datatype orderValue = Priority int | Inherited

definition getCategoryOrder :: "ToolNameSets \<Rightarrow> string \<Rightarrow> orderValue" where
  "getCategoryOrder sets nm =
     (case buildCategoryOrder sets nm of
        Some p \<Rightarrow> Priority p
      | None \<Rightarrow> (if nm \<in> set objectPrototypeNames then Inherited else Priority 10))"

text \<open>
  The comparator \<^verbatim>\<open>(a, b) => getCategoryOrder(a.name) - getCategoryOrder(b.name)\<close>: the
  difference of two numbers, and \<^verbatim>\<open>NaN\<close> (here \<open>None\<close>) as soon as one operand is an
  inherited member. \<^verbatim>\<open>Array.prototype.sort\<close> reads a \<^verbatim>\<open>NaN\<close> result as \<^verbatim>\<open>+0\<close>.
\<close>

definition compareOrder :: "ToolNameSets \<Rightarrow> ToolUsageSummary \<Rightarrow> ToolUsageSummary \<Rightarrow> int option" where
  "compareOrder sets a b =
     (case getCategoryOrder sets (name a) of
        Inherited \<Rightarrow> None
      | Priority x \<Rightarrow>
          (case getCategoryOrder sets (name b) of
             Inherited \<Rightarrow> None
           | Priority y \<Rightarrow> Some (x - y)))"

definition sortCompare :: "ToolNameSets \<Rightarrow> ToolUsageSummary \<Rightarrow> ToolUsageSummary \<Rightarrow> int" where
  "sortCompare sets a b = (case compareOrder sets a b of None \<Rightarrow> 0 | Some v \<Rightarrow> v)"

text \<open>
  \<^verbatim>\<open>[...grouped].sort(comparator)\<close>. \<^verbatim>\<open>Array.prototype.sort\<close> is stable, and for a
  consistent comparator its result is determined: it is the list that this stable
  insertion sort computes. When the comparator answers \<^verbatim>\<open>NaN\<close> for some pairs it is not
  consistent and the language leaves the order to the implementation; the insertion
  sort then keeps an element in front of every element it compares as equal to.
\<close>

fun insertSorted :: "('a \<Rightarrow> 'a \<Rightarrow> int) \<Rightarrow> 'a \<Rightarrow> 'a list \<Rightarrow> 'a list" where
  "insertSorted cmp x [] = [x]"
| "insertSorted cmp x (y # ys) =
     (if cmp x y \<le> 0 then x # y # ys else y # insertSorted cmp x ys)"

definition sortWith :: "('a \<Rightarrow> 'a \<Rightarrow> int) \<Rightarrow> 'a list \<Rightarrow> 'a list" where
  "sortWith cmp xs = foldr (insertSorted cmp) xs []"

definition sortByCategoryOrder :: "ToolNameSets \<Rightarrow> ToolUsageSummary list \<Rightarrow> ToolUsageSummary list" where
  "sortByCategoryOrder sets tools = sortWith (sortCompare sets) tools"

subsection \<open>Category detection\<close>

text \<open>
  \<^verbatim>\<open>detectCategory\<close>: \<^verbatim>\<open>tool.samples[0]?.data\<close> is the payload of the first sample, or
  undefined when there is no sample or the first sample has no payload;
  \<^verbatim>\<open>classifyToolName(tool.name) || 'mcp'\<close> falls back on an undefined or empty result.
\<close>

definition firstData :: "ToolUsageSummary \<Rightarrow> StructuredToolSample option" where
  "firstData tool = (case samples tool of [] \<Rightarrow> None | s # _ \<Rightarrow> data s)"

definition detectCategory :: "(string \<Rightarrow> string option) \<Rightarrow> ToolUsageSummary \<Rightarrow> string" where
  "detectCategory classify tool =
     (case firstData tool of
        Some d \<Rightarrow> category d
      | None \<Rightarrow> (case classify (name tool) of
                  Some c \<Rightarrow> (if c \<noteq> [] then c else ''mcp'')
                | None \<Rightarrow> ''mcp''))"

subsection \<open>MCP namespace grouping\<close>

definition MCP_GROUP_SAMPLE_CAP :: nat where
  "MCP_GROUP_SAMPLE_CAP = 5"

text \<open>
  \<^verbatim>\<open>if (!nsGroups.has(ns)) nsGroups.set(ns, []); nsGroups.get(ns)!.push(tool)\<close> on a
  \<^verbatim>\<open>Map\<close>, kept as an association list in insertion order.
\<close>

fun nsPush :: "string \<Rightarrow> ToolUsageSummary \<Rightarrow> (string \<times> ToolUsageSummary list) list
    \<Rightarrow> (string \<times> ToolUsageSummary list) list" where
  "nsPush ns tool [] = [(ns, [tool])]"
| "nsPush ns tool ((k, ts) # rest) =
     (if k = ns then (k, ts @ [tool]) # rest else (k, ts) # nsPush ns tool rest)"

text \<open>The first loop of \<^verbatim>\<open>groupMcpByNamespace\<close>, over \<^verbatim>\<open>summaries\<close>.\<close>

fun groupScan :: "(string \<Rightarrow> string option) \<Rightarrow> ToolUsageSummary list
    \<Rightarrow> ToolUsageSummary list \<times> (string \<times> ToolUsageSummary list) list
    \<Rightarrow> ToolUsageSummary list \<times> (string \<times> ToolUsageSummary list) list" where
  "groupScan classify [] st = st"
| "groupScan classify (tool # rest) (res, nsGroups) =
     (if detectCategory classify tool \<noteq> ''mcp'' \<or> \<not> prefix ''mcp__'' (name tool)
      then groupScan classify rest (res @ [tool], nsGroups)
      else let parts = split_dunder (name tool) in
        if length parts < 3 then groupScan classify rest (res @ [tool], nsGroups)
        else groupScan classify rest (res, nsPush (parts ! 1) tool nsGroups))"

text \<open>
  The merge of one bucket with two or more tools; \<open>errorCountOr0\<close> is
  \<^verbatim>\<open>t.errorCount || 0\<close>.
\<close>

definition mergeSamples :: "ToolUsageSummary list \<Rightarrow> ToolSample list" where
  "mergeSamples tools =
     foldl (\<lambda>merged s. if length merged < MCP_GROUP_SAMPLE_CAP then merged @ [s] else merged)
       [] (concat (map samples tools))"

definition errorCountOr0 :: "ToolUsageSummary \<Rightarrow> int" where
  "errorCountOr0 t = (case errorCount t of Some e \<Rightarrow> (if e \<noteq> 0 then e else 0) | None \<Rightarrow> 0)"

definition mergeGroup :: "string \<Rightarrow> ToolUsageSummary list \<Rightarrow> ToolUsageSummary" where
  "mergeGroup ns tools =
     (let totalCount = foldl (\<lambda>s t. s + count t) 0 tools;
          totalErrors = foldl (\<lambda>s t. s + errorCountOr0 t) 0 tools
      in \<lparr> name = ''MCP: '' @ ns, count = totalCount,
           errorCount = (if totalErrors > 0 then Some totalErrors else None),
           samples = mergeSamples tools \<rparr>)"

text \<open>The second loop, over the buckets in insertion order.\<close>

fun emitGroup :: "string \<times> ToolUsageSummary list \<Rightarrow> ToolUsageSummary" where
  "emitGroup (ns, [t]) = t"
| "emitGroup (ns, tools) = mergeGroup ns tools"

definition groupMcpByNamespace :: "(string \<Rightarrow> string option) \<Rightarrow> ToolUsageSummary list
    \<Rightarrow> ToolUsageSummary list" where
  "groupMcpByNamespace classify summaries =
     (case groupScan classify summaries ([], []) of
        (res, nsGroups) \<Rightarrow> res @ map emitGroup nsGroups)"

subsection \<open>Category renderers\<close>

text \<open>\<^verbatim>\<open>tool.errorCount ? `, ${tool.errorCount} errors` : ''\<close>, shared by the renderers.\<close>

definition errorStr :: "ToolUsageSummary \<Rightarrow> string" where
  "errorStr tool =
     (case errorCount tool of
        Some e \<Rightarrow> (if e \<noteq> 0 then '', '' @ show_int e @ '' errors'' else [])
      | None \<Rightarrow> [])"

text \<open>The value of an optional string that has been tested truthy.\<close>

fun strOf :: "string option \<Rightarrow> string" where
  "strOf None = []"
| "strOf (Some s) = s"

text \<open>The value of an optional number that has been tested truthy.\<close>

fun numOf :: "int option \<Rightarrow> int" where
  "numOf None = 0"
| "numOf (Some n) = n"

text \<open>
  Narrowing of \<^verbatim>\<open>sample.data\<close> to one variant: \<^verbatim>\<open>d && d.category === 'shell'\<close> and
  its siblings.
\<close>

fun asShell :: "StructuredToolSample option \<Rightarrow> ShellData option" where
  "asShell (Some (Shell d)) = Some d"
| "asShell _ = None"

fun asWrite :: "StructuredToolSample option \<Rightarrow> WriteData option" where
  "asWrite (Some (Write d)) = Some d"
| "asWrite _ = None"

fun asEdit :: "StructuredToolSample option \<Rightarrow> EditData option" where
  "asEdit (Some (Edit d)) = Some d"
| "asEdit _ = None"

fun asRead :: "StructuredToolSample option \<Rightarrow> ReadData option" where
  "asRead (Some (Read d)) = Some d"
| "asRead _ = None"

fun asGrep :: "StructuredToolSample option \<Rightarrow> GrepData option" where
  "asGrep (Some (Grep d)) = Some d"
| "asGrep _ = None"

fun asGlob :: "StructuredToolSample option \<Rightarrow> GlobData option" where
  "asGlob (Some (Glob d)) = Some d"
| "asGlob _ = None"

definition summaryBlock :: "ToolSample \<Rightarrow> string list" where
  "summaryBlock sample = [''> `'' @ summary sample @ ''`'', '''']"

definition quoted :: "string list \<Rightarrow> string list" where
  "quoted ls = map (\<lambda>l. ''> '' @ l) ls"

subsubsection \<open>Shell\<close>

definition renderShellSample :: "ToolSample \<Rightarrow> nat \<Rightarrow> string list" where
  "renderShellSample sample maxStdoutLines =
     (case asShell (data sample) of
        None \<Rightarrow> summaryBlock sample
      | Some d \<Rightarrow>
          [''> `$ '' @ command d @ ''`'']
          @ (case exitCode d of
               None \<Rightarrow> []
             | Some ec \<Rightarrow>
                 [''> Exit: '' @ show_int ec @ (if errored d then ''  **[ERROR]**'' else [])])
          @ (if truthyStr (stdoutTail d)
             then [''> ```'']
                  @ quoted (take maxStdoutLines (split_nl (strOf (stdoutTail d))))
                  @ [''> ```'']
             else if errored d \<and> truthyStr (errorMessage d)
             then [''> ```'']
                  @ quoted (take maxStdoutLines (split_nl (strOf (errorMessage d))))
                  @ [''> ```'']
             else [])
          @ [''''])"

definition renderShellSection :: "ToolUsageSummary \<Rightarrow> DisplayCaps \<Rightarrow> string list" where
  "renderShellSection tool caps =
     (let detailed = take (shellDetailed caps) (samples tool);
          remaining = count tool - int (length detailed)
      in [''### Shell ('' @ show_int (count tool) @ '' calls'' @ errorStr tool @ '')'', '''']
         @ concat (map (\<lambda>sample. renderShellSample sample (shellStdoutLines caps)) detailed)
         @ (if remaining > 0
            then [''*...and '' @ show_int remaining @ '' more shell calls''
                    @ (if \<not> truthyNum (errorCount tool) then '' (all exit 0)'' else []) @ ''*'',
                  '''']
            else []))"

subsubsection \<open>Write and edit\<close>

text \<open>
  \<^verbatim>\<open>diffLines.filter((l) => !l.startsWith('---') && !l.startsWith('+++')).slice(0, max)\<close>
  and the lines pushed for a truthy \<^verbatim>\<open>d.diff\<close>; the same code in both sample renderers.
\<close>

definition diffBody :: "string \<Rightarrow> string list" where
  "diffBody diff =
     filter (\<lambda>l. \<not> prefix ''---'' l \<and> \<not> prefix ''+++'' l) (split_nl diff)"

definition renderDiff :: "string option \<Rightarrow> nat \<Rightarrow> string list" where
  "renderDiff diff maxDiffLines =
     (if truthyStr diff
      then (let bodyLines = diffBody (strOf diff);
                capped = take maxDiffLines bodyLines;
                truncated = int (length bodyLines) - int (length capped)
            in [''> ```diff''] @ quoted capped @ [''> ```'']
               @ (if truncated > 0
                  then [''> *+'' @ show_int truncated @ '' lines truncated*'']
                  else []))
      else [])"

definition renderWriteSample :: "ToolSample \<Rightarrow> nat \<Rightarrow> string list" where
  "renderWriteSample sample maxDiffLines =
     (case asWrite (data sample) of
        None \<Rightarrow> summaryBlock sample
      | Some d \<Rightarrow>
          [''> **`'' @ wFilePath d @ ''`**''
             @ (if isNewFile d then '' (new file)'' else [])
             @ (case wDiffStats d of
                  None \<Rightarrow> []
                | Some st \<Rightarrow> '' (+'' @ show_int (added st) @ '' lines)'')]
          @ renderDiff (wDiff d) maxDiffLines
          @ [''''])"

definition renderEditSample :: "ToolSample \<Rightarrow> nat \<Rightarrow> string list" where
  "renderEditSample sample maxDiffLines =
     (case asEdit (data sample) of
        None \<Rightarrow> summaryBlock sample
      | Some d \<Rightarrow>
          [''> **`'' @ eFilePath d @ ''`**''
             @ (case eDiffStats d of
                  None \<Rightarrow> []
                | Some st \<Rightarrow>
                    '' (+'' @ show_int (added st) @ '' -'' @ show_int (removed st) @ '' lines)'')]
          @ renderDiff (eDiff d) maxDiffLines
          @ [''''])"

text \<open>The entries of the overflow file list: one per remaining sample of the right variant.\<close>

definition statsStr :: "DiffStats option \<Rightarrow> string" where
  "statsStr ds =
     (case ds of
        None \<Rightarrow> []
      | Some st \<Rightarrow> '' (+'' @ show_int (added st) @ '' -'' @ show_int (removed st) @ '')'')"

definition writeOverflow :: "ToolSample list \<Rightarrow> string list" where
  "writeOverflow rest =
     concat (map (\<lambda>sample. case asWrite (data sample) of
                    None \<Rightarrow> []
                  | Some d \<Rightarrow> [''`'' @ wFilePath d @ ''`'' @ statsStr (wDiffStats d)]) rest)"

definition editOverflow :: "ToolSample list \<Rightarrow> string list" where
  "editOverflow rest =
     concat (map (\<lambda>sample. case asEdit (data sample) of
                    None \<Rightarrow> []
                  | Some d \<Rightarrow> [''`'' @ eFilePath d @ ''`'' @ statsStr (eDiffStats d)]) rest)"

definition fileList :: "string list \<Rightarrow> string" where
  "fileList overflow = (if length overflow > 0 then '': '' @ join '', '' overflow else [])"

definition renderWriteSection :: "ToolUsageSummary \<Rightarrow> DisplayCaps \<Rightarrow> string list" where
  "renderWriteSection tool caps =
     (let detailed = take (writeEditDetailed caps) (samples tool);
          overflow = writeOverflow (drop (writeEditDetailed caps) (samples tool));
          remaining = count tool - int (length detailed)
      in [''### Write ('' @ show_int (count tool) @ '' calls'' @ errorStr tool @ '')'', '''']
         @ concat (map (\<lambda>sample. renderWriteSample sample (writeEditDiffLines caps)) detailed)
         @ (if remaining > 0
            then [''*...and '' @ show_int remaining @ '' more writes'' @ fileList overflow @ ''*'',
                  '''']
            else []))"

definition renderEditSection :: "ToolUsageSummary \<Rightarrow> DisplayCaps \<Rightarrow> string list" where
  "renderEditSection tool caps =
     (let detailed = take (writeEditDetailed caps) (samples tool);
          overflow = editOverflow (drop (writeEditDetailed caps) (samples tool));
          remaining = count tool - int (length detailed)
      in [''### Edit ('' @ show_int (count tool) @ '' calls'' @ errorStr tool @ '')'', '''']
         @ concat (map (\<lambda>sample. renderEditSample sample (writeEditDiffLines caps)) detailed)
         @ (if remaining > 0
            then [''*...and '' @ show_int remaining @ '' more edits'' @ fileList overflow @ ''*'',
                  '''']
            else []))"

subsubsection \<open>Read, grep and glob\<close>

definition readEntry :: "ToolSample \<Rightarrow> string" where
  "readEntry sample =
     (case asRead (data sample) of
        None \<Rightarrow> ''- `'' @ summary sample @ ''`''
      | Some d \<Rightarrow>
          ''- `'' @ rFilePath d @ ''`''
          @ (if truthyNum (lineStart d) \<and> truthyNum (lineEnd d)
             then '' (lines '' @ show_int (numOf (lineStart d)) @ ''-''
                  @ show_int (numOf (lineEnd d)) @ '')''
             else if truthyNum (lineStart d)
             then '' (from line '' @ show_int (numOf (lineStart d)) @ '')''
             else []))"

definition renderReadSection :: "ToolUsageSummary \<Rightarrow> DisplayCaps \<Rightarrow> string list" where
  "renderReadSection tool caps =
     (let shown = take (readEntries caps) (samples tool);
          remaining = count tool - int (length shown)
      in [''### Read ('' @ show_int (count tool) @ '' calls'' @ errorStr tool @ '')'', '''']
         @ map readEntry shown
         @ (if remaining > 0
            then [''- *...and '' @ show_int remaining @ '' more files read*'']
            else [])
         @ [''''])"

definition grepEntry :: "ToolSample \<Rightarrow> string" where
  "grepEntry sample =
     (case asGrep (data sample) of
        None \<Rightarrow> ''- `'' @ summary sample @ ''`''
      | Some d \<Rightarrow>
          ''- `\"'' @ gPattern d @ ''\"`''
          @ (if truthyStr (targetPath d) then '' in `'' @ strOf (targetPath d) @ ''`'' else [])
          @ (case matchCount d of
               None \<Rightarrow> []
             | Some n \<Rightarrow> '' '' @ emdash @ '' '' @ show_int n @ '' matches''))"

definition renderGrepSection :: "ToolUsageSummary \<Rightarrow> DisplayCaps \<Rightarrow> string list" where
  "renderGrepSection tool caps =
     (let shown = take (grepGlobSearchFetch caps) (samples tool);
          remaining = count tool - int (length shown)
      in [''### Grep ('' @ show_int (count tool) @ '' calls'' @ errorStr tool @ '')'', '''']
         @ map grepEntry shown
         @ (if remaining > 0
            then [''- *...and '' @ show_int remaining @ '' more grep searches*'']
            else [])
         @ [''''])"

definition globEntry :: "ToolSample \<Rightarrow> string" where
  "globEntry sample =
     (case asGlob (data sample) of
        None \<Rightarrow> ''- `'' @ summary sample @ ''`''
      | Some d \<Rightarrow>
          ''- `'' @ globPattern d @ ''`''
          @ (case globResultCount d of
               None \<Rightarrow> []
             | Some n \<Rightarrow> '' '' @ emdash @ '' '' @ show_int n @ '' files''))"

definition renderGlobSection :: "ToolUsageSummary \<Rightarrow> DisplayCaps \<Rightarrow> string list" where
  "renderGlobSection tool caps =
     (let shown = take (grepGlobSearchFetch caps) (samples tool);
          remaining = count tool - int (length shown)
      in [''### Glob ('' @ show_int (count tool) @ '' calls'' @ errorStr tool @ '')'', '''']
         @ map globEntry shown
         @ (if remaining > 0
            then [''- *...and '' @ show_int remaining @ '' more glob calls*'']
            else [])
         @ [''''])"

subsubsection \<open>Compact renderer (search, fetch, task, ask, mcp)\<close>

definition COMPACT_LABELS :: "(string \<times> string) list" where
  "COMPACT_LABELS =
     [(''search'', ''Search''), (''fetch'', ''Fetch''), (''task'', ''Task''),
      (''ask'', ''Ask''), (''mcp'', ''MCP'')]"

definition formatCompactSample :: "ToolSample \<Rightarrow> string \<Rightarrow> string" where
  "formatCompactSample sample cat =
     (case data sample of
        None \<Rightarrow> ''`'' @ summary sample @ ''`''
      | Some (Search d) \<Rightarrow>
          ''\"'' @ query d @ ''\"''
          @ (case searchResultCount d of
               None \<Rightarrow> []
             | Some n \<Rightarrow> '' '' @ emdash @ '' '' @ show_int n @ '' results'')
      | Some (Fetch d) \<Rightarrow>
          ''`'' @ url d @ ''`''
          @ (if truthyStr (resultPreview d)
             then '' '' @ emdash @ '' \"'' @ strOf (resultPreview d) @ ''...\"'' else [])
      | Some (Task d) \<Rightarrow>
          ''\"'' @ description d @ ''\"''
          @ (if truthyStr (agentType d) then '' (type: `'' @ strOf (agentType d) @ ''`)'' else [])
          @ (if truthyStr (resultSummary d)
             then '' '' @ emdash @ '' \"'' @ strOf (resultSummary d) @ ''\"'' else [])
      | Some (Ask d) \<Rightarrow> ''\"'' @ question d @ ''\"''
      | Some (Mcp d) \<Rightarrow>
          ''`'' @ toolName d
          @ (if truthyStr (params d) then ''('' @ strOf (params d) @ '')'' else [])
          @ ''`''
          @ (if truthyStr (result d) then '' '' @ emdash @ '' \"'' @ strOf (result d) @ ''\"'' else [])
      | Some _ \<Rightarrow> ''`'' @ summary sample @ ''`'')"

definition compactLabel :: "string \<Rightarrow> ToolUsageSummary \<Rightarrow> string" where
  "compactLabel cat tool =
     (if truthyStr (map_of COMPACT_LABELS cat) then strOf (map_of COMPACT_LABELS cat)
      else name tool)"

definition compactCap :: "string \<Rightarrow> DisplayCaps \<Rightarrow> nat" where
  "compactCap cat caps =
     (if cat \<in> set [''search'', ''fetch''] then grepGlobSearchFetch caps else mcpTaskAsk caps)"

definition compactEntry :: "ToolSample \<Rightarrow> string \<Rightarrow> string" where
  "compactEntry sample cat = ''- '' @ formatCompactSample sample cat"

definition renderCompactSection :: "ToolUsageSummary \<Rightarrow> string \<Rightarrow> DisplayCaps \<Rightarrow> string list" where
  "renderCompactSection tool cat caps =
     (let shown = take (compactCap cat caps) (samples tool);
          remaining = count tool - int (length shown)
      in [''### '' @ compactLabel cat tool @ '' ('' @ show_int (count tool) @ '' calls''
            @ errorStr tool @ '')'', '''']
         @ map (\<lambda>sample. compactEntry sample cat) shown
         @ (if remaining > 0 then [''- *...and '' @ show_int remaining @ '' more*''] else [])
         @ [''''])"

subsubsection \<open>Fallback\<close>

definition fallbackEntry :: "ToolSample \<Rightarrow> string" where
  "fallbackEntry sample = ''- `'' @ summary sample @ ''`''"

definition renderFallbackSection :: "ToolUsageSummary \<Rightarrow> string list" where
  "renderFallbackSection tool =
     (let remaining = count tool - int (min (length (samples tool)) 5)
      in [''### '' @ name tool @ '' ('' @ show_int (count tool) @ '' calls)'', '''']
         @ map fallbackEntry (take 5 (samples tool))
         @ (if remaining > 0 then [''- *...and '' @ show_int remaining @ '' more*''] else [])
         @ [''''])"

subsection \<open>The Tool Activity section\<close>

definition renderSection :: "(string \<Rightarrow> string option) \<Rightarrow> ToolUsageSummary \<Rightarrow> DisplayCaps
    \<Rightarrow> string list" where
  "renderSection classify tool caps =
     (let cat = detectCategory classify tool
      in if cat = ''shell'' then renderShellSection tool caps
         else if cat = ''write'' then renderWriteSection tool caps
         else if cat = ''edit'' then renderEditSection tool caps
         else if cat = ''read'' then renderReadSection tool caps
         else if cat = ''grep'' then renderGrepSection tool caps
         else if cat = ''glob'' then renderGlobSection tool caps
         else if cat \<in> set [''search'', ''fetch'', ''task'', ''ask'', ''mcp'']
           then renderCompactSection tool cat caps
         else renderFallbackSection tool)"

definition renderToolActivity :: "(string \<Rightarrow> string option) \<Rightarrow> ToolNameSets
    \<Rightarrow> ToolUsageSummary list \<Rightarrow> DisplayCaps \<Rightarrow> string list" where
  "renderToolActivity classify sets toolSummaries caps =
     (let grouped = groupMcpByNamespace classify toolSummaries;
          sorted = sortByCategoryOrder sets grouped
      in concat (map (\<lambda>tool. renderSection classify tool caps @ ['''']) sorted))"

subsection \<open>The document assembler\<close>

text \<open>
  Modelled from the spec: \<^verbatim>\<open>UnifiedSession\<close>, \<^verbatim>\<open>ConversationMessage\<close> and \<^verbatim>\<open>SessionNotes\<close>
  are declared in \<^verbatim>\<open>types/index.ts\<close>, which is not among the sources. The records carry
  the fields that \<^verbatim>\<open>generateHandoffMarkdown\<close> reads. \<open>session_updatedAt\<close> holds the value of
  \<^verbatim>\<open>session.updatedAt.toISOString()\<close>, and \<open>None\<close> for an invalid \<^verbatim>\<open>Date\<close>, on which
  \<^verbatim>\<open>toISOString\<close> throws a \<^verbatim>\<open>RangeError\<close>. The field names carry the name of their object,
  since \<^verbatim>\<open>model\<close> and \<^verbatim>\<open>summary\<close> occur in several of them.
\<close>

record UnifiedSession =
  session_id :: string
  session_source :: string
  session_cwd :: string
  session_repo :: "string option"
  session_branch :: "string option"
  session_model :: "string option"
  session_updatedAt :: "string option"
  session_summary :: "string option"

record ConversationMessage =
  msg_role :: string
  msg_content :: string

record TokenUsage =
  tokens_input :: int
  tokens_output :: int

record CacheTokens =
  cache_read :: int
  cache_creation :: int

record SessionNotes =
  notes_model :: "string option"
  notes_tokenUsage :: "TokenUsage option"
  notes_cacheTokens :: "CacheTokens option"
  notes_thinkingTokens :: "int option"
  notes_activeTimeMs :: "int option"
  notes_reasoning :: "string list option"
  notes_compactSummary :: "string option"

text \<open>\<^verbatim>\<open>sessionNotes?.f\<close>: undefined when there are no notes.\<close>

definition notesField :: "(SessionNotes \<Rightarrow> 'a option) \<Rightarrow> SessionNotes option \<Rightarrow> 'a option" where
  "notesField f sessionNotes = (case sessionNotes of None \<Rightarrow> None | Some n \<Rightarrow> f n)"

text \<open>\<^verbatim>\<open>s.replace('T', ' ')\<close>: the first occurrence only.\<close>

fun replaceFirst :: "char \<Rightarrow> char \<Rightarrow> string \<Rightarrow> string" where
  "replaceFirst a b [] = []"
| "replaceFirst a b (c # cs) = (if c = a then b # cs else c # replaceFirst a b cs)"

text \<open>
  Lines 112 to 155: the title, the overview heading and the overview table. \<open>labels\<close> is
  the table \<^verbatim>\<open>getSourceLabels()\<close> returns, \<open>toLocaleString\<close> the number formatting of
  the runtime's locale. The Last Active row is the one of a valid date; for an invalid
  date \<^verbatim>\<open>generateHandoffMarkdown\<close> below raises instead of returning the lines.
\<close>

definition titleLines :: "string list" where
  "titleLines = [''# Session Handoff Context'', '''', '''', ''## Session Overview'', '''']"

definition modelRows :: "UnifiedSession \<Rightarrow> SessionNotes option \<Rightarrow> string list" where
  "modelRows session sessionNotes =
     (if truthyStr (session_model session)
      then [''| **Model** | '' @ strOf (session_model session) @ '' |''] else [])
     @ (if truthyStr (notesField notes_model sessionNotes)
           \<and> notesField notes_model sessionNotes \<noteq> session_model session
        then [''| **Model** | '' @ strOf (notesField notes_model sessionNotes) @ '' |'']
        else [])"

definition overviewTable :: "(string \<Rightarrow> string option) \<Rightarrow> (int \<Rightarrow> string) \<Rightarrow> UnifiedSession
    \<Rightarrow> SessionNotes option \<Rightarrow> nat \<Rightarrow> nat \<Rightarrow> string list" where
  "overviewTable labels toLocaleString session sessionNotes nFiles nMessages =
     [''| Field | Value |'',
      ''|-------|-------|'',
      ''| **Source** | ''
        @ (if truthyStr (labels (session_source session))
           then strOf (labels (session_source session)) else session_source session)
        @ '' |'',
      ''| **Session ID** | `'' @ session_id session @ ''` |'',
      ''| **Working Directory** | `'' @ session_cwd session @ ''` |'']
     @ (if truthyStr (session_repo session)
        then [''| **Repository** | '' @ strOf (session_repo session)
                @ (if truthyStr (session_branch session)
                   then '' @ `'' @ strOf (session_branch session) @ ''`'' else [])
                @ '' |'']
        else [])
     @ modelRows session sessionNotes
     @ [''| **Last Active** | ''
          @ replaceFirst (CHR ''T'') (CHR '' '') (take 16 (strOf (session_updatedAt session)))
          @ '' |'']
     @ (case notesField notes_tokenUsage sessionNotes of
          None \<Rightarrow> []
        | Some u \<Rightarrow>
            [''| **Tokens Used** | '' @ toLocaleString (tokens_input u) @ '' in / ''
               @ toLocaleString (tokens_output u) @ '' out |''])
     @ (case notesField notes_cacheTokens sessionNotes of
          None \<Rightarrow> []
        | Some c \<Rightarrow>
            [''| **Cache Tokens** | '' @ toLocaleString (cache_read c) @ '' read / ''
               @ toLocaleString (cache_creation c) @ '' created |''])
     @ (if truthyNum (notesField notes_thinkingTokens sessionNotes)
        then [''| **Thinking Tokens** | ''
                @ toLocaleString (numOf (notesField notes_thinkingTokens sessionNotes)) @ '' |'']
        else [])
     @ (if truthyNum (notesField notes_activeTimeMs sessionNotes)
        then [''| **Active Time** | ''
                @ show_int ((numOf (notesField notes_activeTimeMs sessionNotes) + 30000) div 60000)
                @ '' min |'']
        else [])
     @ [''| **Files Modified** | '' @ show_nat nFiles @ '' |'',
        ''| **Messages** | '' @ show_nat nMessages @ '' |'',
        '''', '''']"

text \<open>The optional sections, lines 157 to 225, each empty when its condition fails.\<close>

definition summarySection :: "UnifiedSession \<Rightarrow> string list" where
  "summarySection session =
     (if truthyStr (session_summary session)
      then [''## Summary'', '''', ''> '' @ strOf (session_summary session), '''', '''']
      else [])"

definition compactedSection :: "SessionNotes option \<Rightarrow> string list" where
  "compactedSection sessionNotes =
     (if truthyStr (notesField notes_compactSummary sessionNotes)
      then [''## Session Context (Compacted)'', '''',
            ''> '' @ strOf (notesField notes_compactSummary sessionNotes), '''', '''']
      else [])"

definition toolActivitySection :: "(string \<Rightarrow> string option) \<Rightarrow> ToolNameSets
    \<Rightarrow> ToolUsageSummary list \<Rightarrow> string \<Rightarrow> string list" where
  "toolActivitySection classify sets toolSummaries mode =
     (if length toolSummaries > 0
      then [''## Tool Activity'', '''']
           @ renderToolActivity classify sets toolSummaries (capsForMode mode)
           @ ['''']
      else [])"

definition keyDecisionsSection :: "SessionNotes option \<Rightarrow> string list" where
  "keyDecisionsSection sessionNotes =
     (case notesField notes_reasoning sessionNotes of
        None \<Rightarrow> []
      | Some reasoning \<Rightarrow>
          (if length reasoning > 0
           then [''## Key Decisions'', '''']
                @ map (\<lambda>thought. ''- '' @ thought) (take 5 reasoning)
                @ ['''', '''']
           else []))"

text \<open>\<^verbatim>\<open>messages.slice(-10)\<close>: the last ten, or all of them when there are fewer.\<close>

definition lastTen :: "'a list \<Rightarrow> 'a list" where
  "lastTen xs = drop (length xs - 10) xs"

definition contentLine :: "ConversationMessage \<Rightarrow> string" where
  "contentLine msg =
     take 500 (msg_content msg) @ (if length (msg_content msg) > 500 then ellipsis else [])"

definition messageLines :: "ConversationMessage \<Rightarrow> string list" where
  "messageLines msg =
     [''### '' @ (if msg_role msg = ''user'' then ''User'' else ''Assistant''),
      '''',
      contentLine msg,
      '''']"

definition recentConversationSection :: "ConversationMessage list \<Rightarrow> string list" where
  "recentConversationSection messages =
     (let recentMessages = lastTen messages
      in if length recentMessages > 0
         then [''## Recent Conversation'', '''']
              @ concat (map messageLines recentMessages)
              @ ['''']
         else [])"

definition filesModifiedSection :: "string list \<Rightarrow> string list" where
  "filesModifiedSection filesModified =
     (if length filesModified > 0
      then [''## Files Modified'', '''']
           @ map (\<lambda>file. ''- `'' @ file @ ''`'') filesModified
           @ ['''', '''']
      else [])"

definition pendingTasksSection :: "string list \<Rightarrow> string list" where
  "pendingTasksSection pendingTasks =
     (if length pendingTasks > 0
      then [''## Pending Tasks'', '''']
           @ map (\<lambda>task. ''- [ ] '' @ task) pendingTasks
           @ ['''', '''']
      else [])"

definition closingSentence :: string where
  "closingSentence =
     ''**You are continuing this session. Pick up exactly where it left off '' @ emdash
     @ '' review the conversation above, check pending tasks, and keep going.**''"

definition closingLines :: "string list" where
  "closingLines = [''---'', '''', closingSentence]"

text \<open>
  The array \<^verbatim>\<open>lines\<close> at the \<^verbatim>\<open>return\<close>, and the document. The only operation of the
  function that can throw is \<^verbatim>\<open>session.updatedAt.toISOString()\<close> at line 134; nothing
  is observable of the lines pushed before it, so the result is the error or the joined
  lines.
\<close>

datatype error = RangeError

definition handoffLines :: "(string \<Rightarrow> string option) \<Rightarrow> (int \<Rightarrow> string)
    \<Rightarrow> (string \<Rightarrow> string option) \<Rightarrow> ToolNameSets
    \<Rightarrow> UnifiedSession \<Rightarrow> ConversationMessage list \<Rightarrow> string list \<Rightarrow> string list
    \<Rightarrow> ToolUsageSummary list \<Rightarrow> SessionNotes option \<Rightarrow> string \<Rightarrow> string list" where
  "handoffLines labels toLocaleString classify sets
       session messages filesModified pendingTasks toolSummaries sessionNotes mode =
     titleLines
     @ overviewTable labels toLocaleString session sessionNotes
         (length filesModified) (length messages)
     @ summarySection session
     @ compactedSection sessionNotes
     @ toolActivitySection classify sets toolSummaries mode
     @ keyDecisionsSection sessionNotes
     @ recentConversationSection messages
     @ filesModifiedSection filesModified
     @ pendingTasksSection pendingTasks
     @ closingLines"

definition generateHandoffMarkdown :: "(string \<Rightarrow> string option) \<Rightarrow> (int \<Rightarrow> string)
    \<Rightarrow> (string \<Rightarrow> string option) \<Rightarrow> ToolNameSets
    \<Rightarrow> UnifiedSession \<Rightarrow> ConversationMessage list \<Rightarrow> string list \<Rightarrow> string list
    \<Rightarrow> ToolUsageSummary list \<Rightarrow> SessionNotes option \<Rightarrow> string \<Rightarrow> error + string" where
  "generateHandoffMarkdown labels toLocaleString classify sets
       session messages filesModified pendingTasks toolSummaries sessionNotes mode =
     (case session_updatedAt session of
        None \<Rightarrow> Inl RangeError
      | Some _ \<Rightarrow>
          Inr (join [CHR 0x0A]
                 (handoffLines labels toLocaleString classify sets
                    session messages filesModified pendingTasks toolSummaries sessionNotes mode)))"

subsection \<open>Notions used to state the properties\<close>

text \<open>
  An aggregate that the first loop of \<^verbatim>\<open>groupMcpByNamespace\<close> puts into a bucket, and the
  namespace it is bucketed by.
\<close>

definition isNamespaced :: "(string \<Rightarrow> string option) \<Rightarrow> ToolUsageSummary \<Rightarrow> bool" where
  "isNamespaced classify tool =
     (detectCategory classify tool = ''mcp'' \<and> prefix ''mcp__'' (name tool)
      \<and> 3 \<le> length (split_dunder (name tool)))"

definition namespaceOf :: "ToolUsageSummary \<Rightarrow> string" where
  "namespaceOf tool = split_dunder (name tool) ! 1"

text \<open>The distinct elements of a list, in the order of their first occurrence.\<close>

definition firstSeen :: "'a list \<Rightarrow> 'a list" where
  "firstSeen xs = rev (remdups (rev xs))"

text \<open>The members of the bucket of one namespace, in input order.\<close>

definition bucketOf :: "(string \<Rightarrow> string option) \<Rightarrow> ToolUsageSummary list \<Rightarrow> string
    \<Rightarrow> ToolUsageSummary list" where
  "bucketOf classify summaries ns =
     filter (\<lambda>t. namespaceOf t = ns) (filter (isNamespaced classify) summaries)"

text \<open>The shapes of lines: a Model row of the overview table, a level-2 heading, an overflow line.\<close>

definition isModelRow :: "string \<Rightarrow> bool" where
  "isModelRow l = prefix ''| **Model** |'' l"

definition isH2 :: "string \<Rightarrow> bool" where
  "isH2 l = prefix ''## '' l"




text \<open>
  The priority of an aggregate whose name is no member of \<^verbatim>\<open>Object.prototype\<close>: the number
  assigned to its name, or 10.
\<close>

definition priority :: "ToolNameSets \<Rightarrow> ToolUsageSummary \<Rightarrow> int" where
  "priority sets tool = (case buildCategoryOrder sets (name tool) of Some p \<Rightarrow> p | None \<Rightarrow> 10)"

text \<open>
  The lines of the generated markdown, for a valid date, and the lines of one element of
  the array \<^verbatim>\<open>lines\<close> after its first: an element that reproduces a text with line breaks
  spreads over several lines of the document.
\<close>

definition markdownLines :: "(string \<Rightarrow> string option) \<Rightarrow> (int \<Rightarrow> string)
    \<Rightarrow> (string \<Rightarrow> string option) \<Rightarrow> ToolNameSets
    \<Rightarrow> UnifiedSession \<Rightarrow> ConversationMessage list \<Rightarrow> string list \<Rightarrow> string list
    \<Rightarrow> ToolUsageSummary list \<Rightarrow> SessionNotes option \<Rightarrow> string \<Rightarrow> string list" where
  "markdownLines labels toLocaleString classify sets
       session messages filesModified pendingTasks toolSummaries sessionNotes mode =
     split_nl (join [CHR 0x0A]
       (handoffLines labels toLocaleString classify sets
          session messages filesModified pendingTasks toolSummaries sessionNotes mode))"

definition innerLines :: "string \<Rightarrow> string list" where
  "innerLines l = tl (split_nl l)"

text \<open>The lines of the document that a call returns, and nothing for a call that throws.\<close>

definition documentLines :: "error + string \<Rightarrow> string list option" where
  "documentLines r = (case r of Inl _ \<Rightarrow> None | Inr doc \<Rightarrow> Some (split_nl doc))"

subsection \<open>Concrete inputs\<close>

definition exClassify :: "string \<Rightarrow> string option" where
  "exClassify nm =
     (if nm = ''Bash'' then Some ''shell''
      else if nm = ''Write'' then Some ''write''
      else if nm = ''Read'' then Some ''read''
      else None)"

definition exSets :: ToolNameSets where
  "exSets = \<lparr> SHELL_TOOLS = [''Bash''], READ_TOOLS = [''Read''], WRITE_TOOLS = [''Write''],
     EDIT_TOOLS = [''Edit''], GREP_TOOLS = [''Grep''], GLOB_TOOLS = [''Glob''],
     SEARCH_TOOLS = [''WebSearch''], FETCH_TOOLS = [''WebFetch''], TASK_TOOLS = [''Task''],
     TASK_OUTPUT_TOOLS = [''TaskOutput''], ASK_TOOLS = [''AskUserQuestion''] \<rparr>"

definition exLabels :: "string \<Rightarrow> string option" where
  "exLabels = map_of [(''claude'', ''Claude Code''), (''codex'', ''Codex CLI'')]"

definition exSession :: UnifiedSession where
  "exSession = \<lparr> session_id = ''s1'', session_source = ''claude'', session_cwd = ''/w'',
     session_repo = None, session_branch = None, session_model = Some ''model-a'',
     session_updatedAt = Some ''2026-01-02T03:04:05.000Z'', session_summary = None \<rparr>"

definition exNotes :: "string option \<Rightarrow> SessionNotes" where
  "exNotes m = \<lparr> notes_model = m, notes_tokenUsage = None, notes_cacheTokens = None,
     notes_thinkingTokens = None, notes_activeTimeMs = None, notes_reasoning = None,
     notes_compactSummary = None \<rparr>"

definition exMcpSample :: "string \<Rightarrow> ToolSample" where
  "exMcpSample nm =
     \<lparr> summary = nm, data = Some (Mcp \<lparr> toolName = nm, params = None, result = None \<rparr>) \<rparr>"

definition exMcpTool :: "string \<Rightarrow> int \<Rightarrow> ToolUsageSummary" where
  "exMcpTool nm c = \<lparr> name = nm, count = c, errorCount = None, samples = [exMcpSample nm] \<rparr>"

definition exShellSample :: "string \<Rightarrow> int option \<Rightarrow> bool \<Rightarrow> ToolSample" where
  "exShellSample cmd ec err =
     \<lparr> summary = cmd,
       data = Some (Shell \<lparr> command = cmd, exitCode = ec, errored = err, stdoutTail = None,
                            errorMessage = None \<rparr>) \<rparr>"

definition exBash :: ToolUsageSummary where
  "exBash = \<lparr> name = ''Bash'', count = 7, errorCount = None,
     samples = [exShellSample ''ls'' (Some 0) False, exShellSample ''pwd'' (Some 0) False,
                exShellSample ''make'' (Some 0) False, exShellSample ''git status'' (Some 0) False,
                exShellSample ''npm test'' (Some 0) False] \<rparr>"

definition exPatchTool :: ToolUsageSummary where
  "exPatchTool = \<lparr> name = ''apply_patch'', count = 2, errorCount = None,
     samples = [\<lparr> summary = ''apply_patch(a.ts)'', data = None \<rparr>,
                \<lparr> summary = ''apply_patch(b.ts)'',
                  data = Some (Edit \<lparr> eFilePath = ''b.ts'', eDiff = None, eDiffStats = None \<rparr>) \<rparr>] \<rparr>"

definition exDiff :: string where
  "exDiff = ''--- a/f'' @ [CHR 0x0A] @ ''+++ b/f'' @ [CHR 0x0A] @ ''@@ -1 +1,2 @@'' @ [CHR 0x0A]
     @ ''+x'' @ [CHR 0x0A] @ ''+y''"

definition exWriteSample :: ToolSample where
  "exWriteSample = \<lparr> summary = ''write f'',
     data = Some (Write \<lparr> wFilePath = ''f'', isNewFile = True, wDiff = Some exDiff,
                          wDiffStats = None \<rparr>) \<rparr>"

definition exEditSample :: ToolSample where
  "exEditSample = \<lparr> summary = ''edit f'',
     data = Some (Edit \<lparr> eFilePath = ''f'', eDiff = Some exDiff, eDiffStats = None \<rparr>) \<rparr>"

definition exDiff300 :: string where
  "exDiff300 = join [CHR 0x0A] (replicate 300 ''+x'')"

definition exWrite300 :: ToolSample where
  "exWrite300 = \<lparr> summary = ''write g'',
     data = Some (Write \<lparr> wFilePath = ''g'', isNewFile = False, wDiff = Some exDiff300,
                          wDiffStats = None \<rparr>) \<rparr>"

definition exTool :: "string \<Rightarrow> ToolUsageSummary" where
  "exTool nm = \<lparr> name = nm, count = 1, errorCount = None, samples = [] \<rparr>"

definition exGithubList :: ToolUsageSummary where
  "exGithubList = exMcpTool ''mcp__github__list_issues'' 3"

definition exGithubCreate :: ToolUsageSummary where
  "exGithubCreate = exMcpTool ''mcp__github__create_issue'' 2"

definition exJira :: ToolUsageSummary where
  "exJira = exMcpTool ''mcp__jira__search'' 1"

definition exGithubMerged :: ToolUsageSummary where
  "exGithubMerged = \<lparr> name = ''MCP: github'', count = 5, errorCount = None,
     samples = [exMcpSample ''mcp__github__list_issues'',
                exMcpSample ''mcp__github__create_issue''] \<rparr>"

definition exPlanMessage :: ConversationMessage where
  "exPlanMessage = \<lparr> msg_role = ''user'',
     msg_content = ''Plan:'' @ [CHR 0x0A] @ ''## Tool Activity'' \<rparr>"

definition exStepsMessage :: ConversationMessage where
  "exStepsMessage = \<lparr> msg_role = ''user'',
     msg_content = ''Plan:'' @ [CHR 0x0A] @ ''- fix the build'' \<rparr>"

section \<open>Properties\<close>

subsection \<open>Display-cap profile selection\<close>

text \<open>
  A mode other than \<^verbatim>\<open>'inline'\<close> and \<^verbatim>\<open>'reference'\<close> does not stop the generation: with the
  mode \<^verbatim>\<open>'verbose'\<close> the document is the one of the mode \<^verbatim>\<open>'inline'\<close>.
\<close>

theorem mode_unrecognized_counterexample:
  "capsForMode ''verbose'' = INLINE_CAPS
   \<and> generateHandoffMarkdown exLabels show_int exClassify exSets exSession [] [] []
         [exBash] None ''verbose''
     = generateHandoffMarkdown exLabels show_int exClassify exSets exSession [] [] []
         [exBash] None ''inline''"
  by (simp add: generateHandoffMarkdown_def handoffLines_def toolActivitySection_def
      capsForMode_def cong: option.case_cong)

text \<open>
  C3, as the code has it. The selection is total: \<^verbatim>\<open>'reference'\<close> selects the reference
  caps, \<^verbatim>\<open>'inline'\<close> the inline caps, and every other value selects the inline caps as
  well, so that the document is the one generated for \<^verbatim>\<open>'inline'\<close>; no value raises an
  error.
\<close>

theorem mode_selection_total:
  "capsForMode ''inline'' = INLINE_CAPS \<and> capsForMode ''reference'' = REFERENCE_CAPS
   \<and> (mode \<noteq> ''reference'' \<longrightarrow>
        capsForMode mode = INLINE_CAPS
        \<and> generateHandoffMarkdown labels toLocaleString classify sets session messages
             filesModified pendingTasks toolSummaries sessionNotes mode
           = generateHandoffMarkdown labels toLocaleString classify sets session messages
             filesModified pendingTasks toolSummaries sessionNotes ''inline'')"
  by (simp add: generateHandoffMarkdown_def handoffLines_def toolActivitySection_def
      capsForMode_def cong: option.case_cong)

theorem mode_selection_total_witness:
  "''turbo'' \<noteq> ''reference'' \<and> capsForMode ''turbo'' = INLINE_CAPS
   \<and> generateHandoffMarkdown exLabels show_int exClassify exSets exSession [] [] []
         [exBash] None ''turbo''
     = generateHandoffMarkdown exLabels show_int exClassify exSets exSession [] [] []
         [exBash] None ''inline''"
  using mode_selection_total [of "''turbo''" exLabels show_int exClassify exSets exSession
      "[]" "[]" "[]" "[exBash]" None]
  by simp

subsection \<open>Model rows of the overview table\<close>

lemma filter_modelRow_overview:
  "filter isModelRow (overviewTable labels toLocaleString session sessionNotes nf nm)
     = modelRows session sessionNotes"
  by (simp add: overviewTable_def modelRows_def isModelRow_def split: option.splits)

text \<open>
  C10. The rows of the overview table that start with \<^verbatim>\<open>| **Model** |\<close>: two, the session's
  model and then the notes' model, when both are present and differ; one, the session's,
  when the session has a model and the notes' model is equal to it or absent; none when
  both are absent. Present means truthy: defined and not the empty string. The case the
  claim leaves out is the fourth: only the notes' model present, one row.
\<close>

theorem model_rows:
  "(truthyStr (session_model session) \<and> truthyStr (notesField notes_model sessionNotes)
      \<and> notesField notes_model sessionNotes \<noteq> session_model session
    \<longrightarrow> filter isModelRow (overviewTable labels toLocaleString session sessionNotes nf nm)
          = [''| **Model** | '' @ strOf (session_model session) @ '' |'',
             ''| **Model** | '' @ strOf (notesField notes_model sessionNotes) @ '' |''])
   \<and> (truthyStr (session_model session)
      \<and> (notesField notes_model sessionNotes = session_model session
           \<or> \<not> truthyStr (notesField notes_model sessionNotes))
    \<longrightarrow> filter isModelRow (overviewTable labels toLocaleString session sessionNotes nf nm)
          = [''| **Model** | '' @ strOf (session_model session) @ '' |''])
   \<and> (\<not> truthyStr (session_model session) \<and> \<not> truthyStr (notesField notes_model sessionNotes)
    \<longrightarrow> filter isModelRow (overviewTable labels toLocaleString session sessionNotes nf nm) = [])
   \<and> (\<not> truthyStr (session_model session) \<and> truthyStr (notesField notes_model sessionNotes)
    \<longrightarrow> filter isModelRow (overviewTable labels toLocaleString session sessionNotes nf nm)
          = [''| **Model** | '' @ strOf (notesField notes_model sessionNotes) @ '' |''])"
  by (auto simp add: filter_modelRow_overview modelRows_def)

theorem model_rows_witness:
  "filter isModelRow
     (overviewTable exLabels show_int exSession (Some (exNotes (Some ''model-b''))) 0 0)
     = [''| **Model** | model-a |'', ''| **Model** | model-b |'']
   \<and> filter isModelRow
     (overviewTable exLabels show_int exSession (Some (exNotes (Some ''model-a''))) 0 0)
     = [''| **Model** | model-a |'']
   \<and> filter isModelRow (overviewTable exLabels show_int exSession None 0 0)
     = [''| **Model** | model-a |'']
   \<and> filter isModelRow
     (overviewTable exLabels show_int (exSession\<lparr>session_model := None\<rparr>)
        (Some (exNotes None)) 0 0) = []
   \<and> filter isModelRow
     (overviewTable exLabels show_int (exSession\<lparr>session_model := None\<rparr>)
        (Some (exNotes (Some ''model-b''))) 0 0) = [''| **Model** | model-b |'']"
  using model_rows [of exSession "Some (exNotes (Some ''model-b''))" exLabels show_int 0 0]
    model_rows [of exSession "Some (exNotes (Some ''model-a''))" exLabels show_int 0 0]
    model_rows [of exSession None exLabels show_int 0 0]
    model_rows [of "exSession\<lparr>session_model := None\<rparr>" "Some (exNotes None)" exLabels show_int 0 0]
    model_rows [of "exSession\<lparr>session_model := None\<rparr>" "Some (exNotes (Some ''model-b''))"
      exLabels show_int 0 0]
  by (simp add: exSession_def exNotes_def notesField_def)

subsection \<open>Category detection\<close>

text \<open>
  An aggregate whose first sample has no payload and whose second sample has an
  \<^verbatim>\<open>edit\<close> payload: the category is the classifier's (here the default \<^verbatim>\<open>mcp\<close>), not the
  tag of the payload that is present.
\<close>

theorem detectCategory_later_sample_counterexample:
  "data (samples exPatchTool ! 1)
     = Some (Edit \<lparr> eFilePath = ''b.ts'', eDiff = None, eDiffStats = None \<rparr>)
   \<and> category (Edit \<lparr> eFilePath = ''b.ts'', eDiff = None, eDiffStats = None \<rparr>) = ''edit''
   \<and> detectCategory exClassify exPatchTool = ''mcp''"
  by (simp add: exPatchTool_def detectCategory_def firstData_def exClassify_def)

lemma category_nonempty: "category d \<noteq> []"
  by (cases d) simp_all

text \<open>
  C5, as the code has it. The payload consulted is the one of the first sample: when it
  is present, its category tag is the category; when there is no sample or the first
  sample has no payload, the category is the classifier's result on the tool name, or
  \<^verbatim>\<open>mcp\<close> when that result is undefined or empty. The result is never the empty string.
\<close>

theorem detectCategory_two_tier:
  "(\<forall>s rest d. samples tool = s # rest \<and> data s = Some d
       \<longrightarrow> detectCategory classify tool = category d)
   \<and> (samples tool = [] \<or> (\<exists>s rest. samples tool = s # rest \<and> data s = None)
       \<longrightarrow> detectCategory classify tool
           = (case classify (name tool) of
                None \<Rightarrow> ''mcp''
              | Some c \<Rightarrow> (if c = [] then ''mcp'' else c)))
   \<and> detectCategory classify tool \<noteq> []"
  by (auto simp add: detectCategory_def firstData_def category_nonempty
      split: list.splits option.splits)

theorem detectCategory_two_tier_witness:
  "detectCategory exClassify exBash = ''shell''
   \<and> detectCategory exClassify (exBash\<lparr>samples := []\<rparr>) = ''shell''
   \<and> detectCategory exClassify exPatchTool = ''mcp''
   \<and> detectCategory exClassify (exMcpTool ''mcp__a__x'' 1) \<noteq> []"
  using detectCategory_two_tier [of exBash exClassify]
    detectCategory_two_tier [of "exBash\<lparr>samples := []\<rparr>" exClassify]
    detectCategory_two_tier [of exPatchTool exClassify]
    detectCategory_two_tier [of "exMcpTool ''mcp__a__x'' 1" exClassify]
  by (simp add: exBash_def exPatchTool_def exClassify_def exShellSample_def)

subsection \<open>Shell samples\<close>

text \<open>
  A shell sample with exit code 1 whose \<^verbatim>\<open>errored\<close> flag is not set renders no error
  flag, and one with exit code 0 whose \<^verbatim>\<open>errored\<close> flag is set renders the flag.
\<close>

theorem shell_error_flag_counterexample:
  "renderShellSample (exShellSample ''false'' (Some 1) False) 3
     = [''> `$ false`'', ''> Exit: 1'', '''']
   \<and> renderShellSample (exShellSample ''true'' (Some 0) True) 3
     = [''> `$ true`'', ''> Exit: 0  **[ERROR]**'', '''']"
  by (simp add: renderShellSample_def exShellSample_def show_int_def show_nat.simps digit_def)

text \<open>
  C6, as the code has it. A shell sample renders the command line, then the exit-code
  line when an exit code is present, flagged \<^verbatim>\<open>**[ERROR]**\<close> exactly when the sample's
  \<^verbatim>\<open>errored\<close> field is set, then one fenced block: the first \<open>n\<close> lines of the stdout
  tail when it is non-empty, otherwise the first \<open>n\<close> lines of the error message when
  the call errored and the message is non-empty, otherwise nothing; never both. An
  aggregate with count 7, five samples and no (or a zero) error count renders, under the
  inline caps, the heading, its five sample blocks and the line
  \<^verbatim>\<open>*...and 2 more shell calls (all exit 0)*\<close>.
\<close>

theorem shell_sample_rendering:
  "(data sample = Some (Shell d) \<longrightarrow>
      renderShellSample sample n
        = [''> `$ '' @ command d @ ''`'']
          @ (case exitCode d of
               None \<Rightarrow> []
             | Some ec \<Rightarrow>
                 [''> Exit: '' @ show_int ec @ (if errored d then ''  **[ERROR]**'' else [])])
          @ (if truthyStr (stdoutTail d)
             then [''> ```''] @ map (\<lambda>l. ''> '' @ l) (take n (split_nl (strOf (stdoutTail d))))
                  @ [''> ```'']
             else if errored d \<and> truthyStr (errorMessage d)
             then [''> ```''] @ map (\<lambda>l. ''> '' @ l) (take n (split_nl (strOf (errorMessage d))))
                  @ [''> ```'']
             else [])
          @ [''''])
   \<and> (length (samples tool) = 5 \<and> count tool = 7 \<and> \<not> truthyNum (errorCount tool) \<longrightarrow>
        renderShellSection tool INLINE_CAPS
          = [''### Shell (7 calls)'', '''']
            @ concat (map (\<lambda>s. renderShellSample s 3) (samples tool))
            @ [''*...and 2 more shell calls (all exit 0)*'', ''''])"
  apply (rule conjI)
   apply (simp add: renderShellSample_def quoted_def)
  apply (cases "errorCount tool")
   apply (simp_all add: renderShellSection_def INLINE_CAPS_def errorStr_def show_int_def show_nat.simps digit_def)
  done

theorem shell_sample_rendering_witness:
  "renderShellSample (exShellSample ''ls'' (Some 0) False) 3 = [''> `$ ls`'', ''> Exit: 0'', '''']
   \<and> renderShellSection exBash INLINE_CAPS
     = [''### Shell (7 calls)'', '''']
       @ concat (map (\<lambda>s. renderShellSample s 3) (samples exBash))
       @ [''*...and 2 more shell calls (all exit 0)*'', '''']"
  using shell_sample_rendering [of "exShellSample ''ls'' (Some 0) False"
      "\<lparr> command = ''ls'', exitCode = Some 0, errored = False, stdoutTail = None,
         errorMessage = None \<rparr>" 3 exBash]
  by (simp add: exShellSample_def exBash_def show_int_def show_nat.simps digit_def)

subsection \<open>Diff truncation of write and edit samples\<close>

lemma show_nat_250: "show_nat 250 = ''250''"
  by (simp add: show_nat.simps digit_def)

lemma renderDiff_truthy:
  "truthyStr diff \<Longrightarrow>
   renderDiff diff n
     = [''> ```diff''] @ map (\<lambda>l. ''> '' @ l) (take n (diffBody (strOf diff))) @ [''> ```'']
       @ (if n < length (diffBody (strOf diff))
          then [''> *+'' @ show_nat (length (diffBody (strOf diff)) - n) @ '' lines truncated*'']
          else [])"
  by (auto simp add: renderDiff_def Let_def quoted_def min_def show_int_def nat_diff_distrib of_nat_diff)

text \<open>
  C7. For a write or edit sample with a non-empty diff, the lines after the header line
  of the block are: the opening fence, the first \<open>n\<close> lines of the diff body (the diff's
  lines without those that start with \<^verbatim>\<open>---\<close> or \<^verbatim>\<open>+++\<close>), the closing fence, and, when
  the body has more than \<open>n\<close> lines, the note with the exact number of lines left out.
  With a body of 300 lines and the inline cap 50, these are 50 diff lines and the note
  \<^verbatim>\<open>*+250 lines truncated*\<close> (a line of the sample's block quote, so prefixed \<^verbatim>\<open>> \<close>).
\<close>

theorem diff_truncation:
  "(data sample = Some (Write d) \<and> truthyStr (wDiff d) \<longrightarrow>
      tl (renderWriteSample sample n)
        = [''> ```diff'']
          @ map (\<lambda>l. ''> '' @ l) (take n (diffBody (strOf (wDiff d))))
          @ [''> ```'']
          @ (if n < length (diffBody (strOf (wDiff d)))
             then [''> *+'' @ show_nat (length (diffBody (strOf (wDiff d))) - n)
                     @ '' lines truncated*'']
             else [])
          @ [''''])
   \<and> (data sample = Some (Edit e) \<and> truthyStr (eDiff e) \<longrightarrow>
      tl (renderEditSample sample n)
        = [''> ```diff'']
          @ map (\<lambda>l. ''> '' @ l) (take n (diffBody (strOf (eDiff e))))
          @ [''> ```'']
          @ (if n < length (diffBody (strOf (eDiff e)))
             then [''> *+'' @ show_nat (length (diffBody (strOf (eDiff e))) - n)
                     @ '' lines truncated*'']
             else [])
          @ [''''])
   \<and> diffBody s = filter (\<lambda>l. \<not> (prefix ''---'' l \<or> prefix ''+++'' l)) (split_nl s)
   \<and> (\<forall>l \<in> set (diffBody s). \<not> prefix ''---'' l \<and> \<not> prefix ''+++'' l)
   \<and> (data sample = Some (Write d) \<and> truthyStr (wDiff d)
        \<and> length (diffBody (strOf (wDiff d))) = 300 \<longrightarrow>
      tl (renderWriteSample sample (writeEditDiffLines INLINE_CAPS))
        = [''> ```diff'']
          @ map (\<lambda>l. ''> '' @ l) (take 50 (diffBody (strOf (wDiff d))))
          @ [''> ```'', ''> *+250 lines truncated*'', '''']
      \<and> length (take 50 (diffBody (strOf (wDiff d)))) = 50)"
  by (simp add: renderWriteSample_def renderEditSample_def renderDiff_truthy diffBody_def
      INLINE_CAPS_def show_nat_250)

lemma split_nl_no_nl: "CHR 0x0A \<notin> set l \<Longrightarrow> split_nl l = [l]"
  by (induction l) auto

lemma split_nl_append_nl:
  "CHR 0x0A \<notin> set l \<Longrightarrow> split_nl (l @ CHR 0x0A # r) = l # split_nl r"
  by (induction l) auto

lemma split_nl_join:
  "ls \<noteq> [] \<Longrightarrow> \<forall>l \<in> set ls. CHR 0x0A \<notin> set l \<Longrightarrow> split_nl (join [CHR 0x0A] ls) = ls"
  by (induction "[CHR 0x0A]" ls rule: join.induct) (simp_all add: split_nl_no_nl split_nl_append_nl)

lemma diffBody_exDiff300: "diffBody exDiff300 = replicate 300 ''+x''"
proof -
  have "split_nl exDiff300 = replicate 300 ''+x''"
    unfolding exDiff300_def by (rule split_nl_join) auto
  then show ?thesis by (simp add: diffBody_def)
qed

lemma exDiff300_truthy: "truthyStr (Some exDiff300)"
proof -
  have "length (diffBody exDiff300) = 300" by (simp add: diffBody_exDiff300)
  then have "exDiff300 \<noteq> []" by (auto simp add: diffBody_def)
  then show ?thesis by simp
qed

theorem diff_truncation_witness:
  "tl (renderWriteSample exWriteSample 2)
     = [''> ```diff'', ''> @@ -1 +1,2 @@'', ''> +x'', ''> ```'', ''> *+1 lines truncated*'', '''']
   \<and> tl (renderEditSample exEditSample 5)
     = [''> ```diff'', ''> @@ -1 +1,2 @@'', ''> +x'', ''> +y'', ''> ```'', '''']
   \<and> length (diffBody exDiff300) = 300
   \<and> tl (renderWriteSample exWrite300 (writeEditDiffLines INLINE_CAPS))
     = [''> ```diff''] @ replicate 50 ''> +x''
       @ [''> ```'', ''> *+250 lines truncated*'', '''']"
proof -
  let ?w = "\<lparr> wFilePath = ''f'', isNewFile = True, wDiff = Some exDiff, wDiffStats = None \<rparr>"
  let ?e = "\<lparr> eFilePath = ''f'', eDiff = Some exDiff, eDiffStats = None \<rparr>"
  let ?g = "\<lparr> wFilePath = ''g'', isNewFile = False, wDiff = Some exDiff300, wDiffStats = None \<rparr>"
  have b: "diffBody exDiff = [''@@ -1 +1,2 @@'', ''+x'', ''+y'']"
    by (simp add: diffBody_def exDiff_def)
  have t: "exDiff \<noteq> []" by (simp add: exDiff_def)
  have w: "data exWriteSample = Some (Write ?w) \<and> truthyStr (wDiff ?w)"
    using t by (simp add: exWriteSample_def)
  have e: "data exEditSample = Some (Edit ?e) \<and> truthyStr (eDiff ?e)"
    using t by (simp add: exEditSample_def)
  have l3: "length (diffBody exDiff300) = 300" by (simp add: diffBody_exDiff300)
  have g: "data exWrite300 = Some (Write ?g) \<and> truthyStr (wDiff ?g)
      \<and> length (diffBody (strOf (wDiff ?g))) = 300"
    using exDiff300_truthy l3 by (simp add: exWrite300_def)
  have "tl (renderWriteSample exWriteSample 2)
        = [''> ```diff'']
          @ map (\<lambda>l. ''> '' @ l) (take 2 (diffBody (strOf (wDiff ?w))))
          @ [''> ```'']
          @ (if 2 < length (diffBody (strOf (wDiff ?w)))
             then [''> *+'' @ show_nat (length (diffBody (strOf (wDiff ?w))) - 2)
                     @ '' lines truncated*'']
             else [])
          @ ['''']"
    using diff_truncation [of exWriteSample ?w 2 ?e exDiff] w by blast
  then have c1: "tl (renderWriteSample exWriteSample 2)
     = [''> ```diff'', ''> @@ -1 +1,2 @@'', ''> +x'', ''> ```'', ''> *+1 lines truncated*'', '''']"
    by (simp add: b show_nat.simps digit_def)
  have "tl (renderEditSample exEditSample 5)
        = [''> ```diff'']
          @ map (\<lambda>l. ''> '' @ l) (take 5 (diffBody (strOf (eDiff ?e))))
          @ [''> ```'']
          @ (if 5 < length (diffBody (strOf (eDiff ?e)))
             then [''> *+'' @ show_nat (length (diffBody (strOf (eDiff ?e))) - 5)
                     @ '' lines truncated*'']
             else [])
          @ ['''']"
    using diff_truncation [of exEditSample ?w 5 ?e exDiff] e by blast
  then have c2: "tl (renderEditSample exEditSample 5)
     = [''> ```diff'', ''> @@ -1 +1,2 @@'', ''> +x'', ''> +y'', ''> ```'', '''']"
    by (simp add: b)
  have "tl (renderWriteSample exWrite300 (writeEditDiffLines INLINE_CAPS))
        = [''> ```diff'']
          @ map (\<lambda>l. ''> '' @ l) (take 50 (diffBody (strOf (wDiff ?g))))
          @ [''> ```'', ''> *+250 lines truncated*'', '''']"
    using diff_truncation [of exWrite300 ?g 0 ?e exDiff] g by blast
  then have c3: "tl (renderWriteSample exWrite300 (writeEditDiffLines INLINE_CAPS))
     = [''> ```diff''] @ replicate 50 ''> +x''
       @ [''> ```'', ''> *+250 lines truncated*'', '''']"
    by (simp add: diffBody_exDiff300)
  from c1 c2 l3 c3 show ?thesis by blast
qed

subsection \<open>Count conservation of the section renderers\<close>




























subsection \<open>Sorting by category priority\<close>

text \<open>The own properties of the table: what the two loops assign.\<close>

lemma assign_names:
  "foldl (\<lambda>ord nm. if nm = ''__proto__'' then ord else ord(nm \<mapsto> p)) m s nm
     = (if nm \<in> set s \<and> nm \<noteq> ''__proto__'' then Some p else m nm)"
  by (induction s arbitrary: m) auto

lemma assignAll_apply:
  "assignAll m sp nm
     = (if nm \<in> set (fst sp) \<and> nm \<noteq> ''__proto__'' then Some (snd sp) else m nm)"
  unfolding assignAll_def by (rule assign_names)

lemma foldl_assignAll_snoc:
  "foldl assignAll m (mp @ [x]) nm
     = (if nm \<in> set (fst x) \<and> nm \<noteq> ''__proto__'' then Some (snd x)
        else foldl assignAll m mp nm)"
proof -
  have "foldl assignAll m (mp @ [x]) nm = assignAll (foldl assignAll m mp) x nm" by simp
  also have "\<dots> = (if nm \<in> set (fst x) \<and> nm \<noteq> ''__proto__'' then Some (snd x)
        else foldl assignAll m mp nm)"
    by (rule assignAll_apply)
  finally show ?thesis .
qed

lemma foldl_assignAll_none:
  "\<forall>sp \<in> set mp. nm \<notin> set (fst sp) \<Longrightarrow> foldl assignAll m mp nm = m nm"
proof (induction mp rule: rev_induct)
  case Nil
  show ?case by simp
next
  case (snoc x mp)
  then show ?case by (simp only: foldl_assignAll_snoc) simp
qed

lemma foldl_assignAll_some:
  "nm \<noteq> ''__proto__'' \<Longrightarrow> \<exists>sp \<in> set mp. nm \<in> set (fst sp) \<Longrightarrow>
   \<forall>sp \<in> set mp. nm \<in> set (fst sp) \<longrightarrow> snd sp = p \<Longrightarrow>
   foldl assignAll m mp nm = Some p"
proof (induction mp rule: rev_induct)
  case Nil
  then show ?case by simp
next
  case (snoc x mp)
  show ?case
  proof (cases "nm \<in> set (fst x)")
    case True
    with snoc.prems show ?thesis by (simp only: foldl_assignAll_snoc) simp
  next
    case False
    with snoc.prems have "\<exists>sp \<in> set mp. nm \<in> set (fst sp)" by auto
    moreover from snoc.prems have "\<forall>sp \<in> set mp. nm \<in> set (fst sp) \<longrightarrow> snd sp = p" by auto
    ultimately have "foldl assignAll m mp nm = Some p" by (rule snoc.IH [OF snoc.prems(1)])
    with False show ?thesis by (simp only: foldl_assignAll_snoc) simp
  qed
qed

lemma absent_not_assigned:
  "\<forall>sp \<in> set (orderMapping sets). nm \<notin> set (fst sp) \<Longrightarrow> buildCategoryOrder sets nm = None"
  unfolding buildCategoryOrder_def by (simp add: foldl_assignAll_none)

lemma insertSorted_front:
  "\<forall>y \<in> set ys. cmp x y \<le> 0 \<Longrightarrow> insertSorted cmp x ys = x # ys"
  by (cases ys) simp_all

lemma inherited_compare:
  "getCategoryOrder sets (name t) = Inherited \<Longrightarrow>
   compareOrder sets t u = None \<and> compareOrder sets u t = None"
  by (simp add: compareOrder_def split: orderValue.splits)

text \<open>
  On names that are no members of \<^verbatim>\<open>Object.prototype\<close> the comparator is the difference
  of two priorities, and the sort is the stable sort by priority: for every permutation
  \<open>ys\<close> of an input \<open>xs\<close> it yields the sorted list of the priorities of \<open>xs\<close>, keeps the
  entries, and keeps the relative order of the entries of every priority.
\<close>

lemma ordinary_order:
  "nm \<notin> set objectPrototypeNames \<Longrightarrow>
   getCategoryOrder sets nm
     = Priority (case buildCategoryOrder sets nm of Some p \<Rightarrow> p | None \<Rightarrow> 10)"
  by (simp add: getCategoryOrder_def split: option.splits)

lemma ordinary_compare:
  "name a \<notin> set objectPrototypeNames \<Longrightarrow> name b \<notin> set objectPrototypeNames \<Longrightarrow>
   sortCompare sets a b = priority sets a - priority sets b"
  by (simp add: sortCompare_def compareOrder_def ordinary_order priority_def)

lemma ordinary_insert:
  "name x \<notin> set objectPrototypeNames \<Longrightarrow> \<forall>t \<in> set ys. name t \<notin> set objectPrototypeNames \<Longrightarrow>
   insertSorted (sortCompare sets) x ys = insort_key (priority sets) x ys"
  by (induction ys) (simp_all add: ordinary_compare)

lemma ordinary_sort:
  "\<forall>t \<in> set ys. name t \<notin> set objectPrototypeNames \<Longrightarrow>
   sortByCategoryOrder sets ys = sort_key (priority sets) ys"
proof (induction ys)
  case Nil
  show ?case by (simp add: sortByCategoryOrder_def sortWith_def)
next
  case (Cons x ys)
  then have ih: "sortByCategoryOrder sets ys = sort_key (priority sets) ys" by simp
  have "sortByCategoryOrder sets (x # ys)
      = insertSorted (sortCompare sets) x (sortByCategoryOrder sets ys)"
    by (simp add: sortByCategoryOrder_def sortWith_def)
  also have "\<dots> = insort_key (priority sets) x (sort_key (priority sets) ys)"
    using Cons.prems by (simp add: ih ordinary_insert)
  finally show ?case by simp
qed

lemma category_sort_ordinary:
  assumes "mset ys = mset xs" and "\<forall>t \<in> set ys. name t \<notin> set objectPrototypeNames"
  shows "map (priority sets) (sortByCategoryOrder sets ys) = sort (map (priority sets) xs)"
    and "mset (sortByCategoryOrder sets ys) = mset xs"
    and "filter (\<lambda>t. priority sets t = k) (sortByCategoryOrder sets ys)
           = filter (\<lambda>t. priority sets t = k) ys"
proof -
  note s = ordinary_sort [OF assms(2), of sets]
  have "mset (map (priority sets) (sort_key (priority sets) ys)) = mset (map (priority sets) xs)"
    using assms(1) by simp
  moreover have "sorted (map (priority sets) (sort_key (priority sets) ys))" by simp
  ultimately show "map (priority sets) (sortByCategoryOrder sets ys) = sort (map (priority sets) xs)"
    unfolding s by (metis properties_for_sort)
  show "mset (sortByCategoryOrder sets ys) = mset xs"
    unfolding s using assms(1) by simp
  show "filter (\<lambda>t. priority sets t = k) (sortByCategoryOrder sets ys)
           = filter (\<lambda>t. priority sets t = k) ys"
    unfolding s by (simp add: sort_key_stable)
qed

text \<open>
  The priority of such a name is the number of the canonical sets it belongs to (when
  these agree on the number), and 10, which is greater than every assigned number, when
  it belongs to none.
\<close>

lemma ordinary_priority_of_member:
  assumes "(s, p) \<in> set (orderMapping sets)" and "name t \<in> set s"
    and "name t \<noteq> ''__proto__''"
    and "\<forall>sq \<in> set (orderMapping sets). name t \<in> set (fst sq) \<longrightarrow> snd sq = p"
  shows "priority sets t = p"
proof -
  have e: "\<exists>sq \<in> set (orderMapping sets). name t \<in> set (fst sq)"
    using assms(1,2) by force
  have "buildCategoryOrder sets (name t) = Some p"
    unfolding buildCategoryOrder_def by (rule foldl_assignAll_some [OF assms(3) e assms(4)])
  then show ?thesis by (simp add: priority_def)
qed

lemma ordinary_priority_of_absent:
  "\<forall>sq \<in> set (orderMapping sets). name t \<notin> set (fst sq) \<Longrightarrow> priority sets t = 10"
  by (simp add: priority_def absent_not_assigned)

text \<open>
  C4 does not hold of the code for a name that is a member of \<^verbatim>\<open>Object.prototype\<close>, such as
  \<^verbatim>\<open>constructor\<close> or \<^verbatim>\<open>toString\<close>. When such a name belongs to no canonical set, the lookup
  \<^verbatim>\<open>CATEGORY_ORDER[name]\<close> yields the inherited member, so the default 10 of
  \<^verbatim>\<open>?? 10\<close> does not apply, although the comment on that line says that unknown names go
  last. Every comparison with the entry is \<^verbatim>\<open>NaN\<close>, the sort moves nothing across it, and
  an entry of that name at the head of the list stays at the head, in front of entries of
  every priority. \<^verbatim>\<open>renderToolActivity\<close> renders the sections in the order of this sort.
  In the example a tool named \<^verbatim>\<open>constructor\<close> stays in front of \<^verbatim>\<open>Bash\<close> and its section
  is rendered before the Shell section, whereas the unknown name \<^verbatim>\<open>my_tool\<close> gets
  priority 10 and is moved behind \<^verbatim>\<open>Bash\<close>.
\<close>

theorem inherited_name_not_sorted_last:
  assumes "name t \<in> set objectPrototypeNames"
    and "\<forall>sp \<in> set (orderMapping sets). name t \<notin> set (fst sp)"
  shows "getCategoryOrder sets (name t) = Inherited
   \<and> compareOrder sets t u = None \<and> compareOrder sets u t = None
   \<and> sortByCategoryOrder sets (t # rest) = t # sortByCategoryOrder sets rest
   \<and> renderToolActivity classify sets toolSummaries caps
     = concat (map (\<lambda>tool. renderSection classify tool caps @ [''''])
         (sortByCategoryOrder sets (groupMcpByNamespace classify toolSummaries)))"
proof -
  have i: "getCategoryOrder sets (name t) = Inherited"
    using assms by (simp add: getCategoryOrder_def absent_not_assigned)
  have c: "\<And>v. compareOrder sets t v = None \<and> compareOrder sets v t = None"
    by (rule inherited_compare [OF i])
  then have "\<forall>y \<in> set (sortByCategoryOrder sets rest). sortCompare sets t y \<le> 0"
    by (simp add: sortCompare_def)
  then have "insertSorted (sortCompare sets) t (sortByCategoryOrder sets rest)
      = t # sortByCategoryOrder sets rest"
    by (rule insertSorted_front)
  then have s: "sortByCategoryOrder sets (t # rest) = t # sortByCategoryOrder sets rest"
    by (simp add: sortByCategoryOrder_def sortWith_def)
  have r: "renderToolActivity classify sets toolSummaries caps
     = concat (map (\<lambda>tool. renderSection classify tool caps @ [''''])
         (sortByCategoryOrder sets (groupMcpByNamespace classify toolSummaries)))"
    by (simp add: renderToolActivity_def)
  from i c [of u] s r show ?thesis by blast
qed

lemma ex_orders:
  "getCategoryOrder exSets ''constructor'' = Inherited"
  "getCategoryOrder exSets ''Bash'' = Priority 0"
  "getCategoryOrder exSets ''Read'' = Priority 3"
  "getCategoryOrder exSets ''my_tool'' = Priority 10"
  by (simp_all add: getCategoryOrder_def buildCategoryOrder_def orderMapping_def assignAll_def
      exSets_def objectPrototypeNames_def)

theorem inherited_name_not_sorted_last_witness:
  "getCategoryOrder exSets ''constructor'' = Inherited
   \<and> getCategoryOrder exSets ''Bash'' = Priority 0
   \<and> getCategoryOrder exSets ''my_tool'' = Priority 10
   \<and> sortByCategoryOrder exSets [exTool ''constructor'', exTool ''Bash'']
     = [exTool ''constructor'', exTool ''Bash'']
   \<and> sortByCategoryOrder exSets [exTool ''my_tool'', exTool ''Bash'']
     = [exTool ''Bash'', exTool ''my_tool'']
   \<and> sortByCategoryOrder exSets [exTool ''Read'', exTool ''Bash'']
     = [exTool ''Bash'', exTool ''Read'']
   \<and> renderToolActivity exClassify exSets [exTool ''constructor'', exTool ''Bash''] INLINE_CAPS
     = [''### MCP (1 calls)'', '''', ''- *...and 1 more*'', '''', '''',
        ''### Shell (1 calls)'', '''', ''*...and 1 more shell calls (all exit 0)*'', '''', '''']
   \<and> renderToolActivity exClassify exSets [exTool ''my_tool'', exTool ''Bash''] INLINE_CAPS
     = [''### Shell (1 calls)'', '''', ''*...and 1 more shell calls (all exit 0)*'', '''', '''',
        ''### MCP (1 calls)'', '''', ''- *...and 1 more*'', '''', '''']"
proof -
  have h1: "name (exTool ''constructor'') \<in> set objectPrototypeNames"
    by (simp add: exTool_def objectPrototypeNames_def)
  have h2: "\<forall>sp \<in> set (orderMapping exSets). name (exTool ''constructor'') \<notin> set (fst sp)"
    by (simp add: exTool_def orderMapping_def exSets_def)
  note t = inherited_name_not_sorted_last [OF h1 h2, of "exTool ''Bash''" "[exTool ''Bash'']"
      exClassify "[exTool ''constructor'', exTool ''Bash'']" INLINE_CAPS]
  have n: "name (exTool ''constructor'') = ''constructor''" by (simp add: exTool_def)
  have one: "sortByCategoryOrder exSets [exTool ''Bash''] = [exTool ''Bash'']"
    by (simp add: sortByCategoryOrder_def sortWith_def)
  from t have a: "getCategoryOrder exSets ''constructor'' = Inherited"
    by (simp only: n)
  from t have "sortByCategoryOrder exSets (exTool ''constructor'' # [exTool ''Bash''])
      = exTool ''constructor'' # sortByCategoryOrder exSets [exTool ''Bash'']"
    by blast
  then have b: "sortByCategoryOrder exSets [exTool ''constructor'', exTool ''Bash'']
     = [exTool ''constructor'', exTool ''Bash'']"
    by (simp only: one)
  have c: "sortByCategoryOrder exSets [exTool ''my_tool'', exTool ''Bash'']
     = [exTool ''Bash'', exTool ''my_tool'']"
    by (simp add: sortByCategoryOrder_def sortWith_def sortCompare_def compareOrder_def
        exTool_def ex_orders)
  have d: "sortByCategoryOrder exSets [exTool ''Read'', exTool ''Bash'']
     = [exTool ''Bash'', exTool ''Read'']"
    by (simp add: sortByCategoryOrder_def sortWith_def sortCompare_def compareOrder_def
        exTool_def ex_orders)
  have g: "groupMcpByNamespace exClassify [exTool ''constructor'', exTool ''Bash'']
     = [exTool ''constructor'', exTool ''Bash'']"
    by (simp add: groupMcpByNamespace_def exTool_def detectCategory_def firstData_def
        exClassify_def)
  from t have "renderToolActivity exClassify exSets [exTool ''constructor'', exTool ''Bash'']
       INLINE_CAPS
     = concat (map (\<lambda>tool. renderSection exClassify tool INLINE_CAPS @ [''''])
         (sortByCategoryOrder exSets
            (groupMcpByNamespace exClassify [exTool ''constructor'', exTool ''Bash''])))"
    by blast
  then have e: "renderToolActivity exClassify exSets [exTool ''constructor'', exTool ''Bash'']
       INLINE_CAPS
     = [''### MCP (1 calls)'', '''', ''- *...and 1 more*'', '''', '''',
        ''### Shell (1 calls)'', '''', ''*...and 1 more shell calls (all exit 0)*'', '''', '''']"
    by (simp only: g b)
       (simp add: renderSection_def detectCategory_def firstData_def exTool_def exClassify_def
          renderCompactSection_def renderShellSection_def compactLabel_def compactCap_def
          COMPACT_LABELS_def errorStr_def INLINE_CAPS_def show_int_def show_nat.simps digit_def)
  note u = inherited_name_not_sorted_last [OF h1 h2, of "exTool ''Bash''" "[exTool ''Bash'']"
      exClassify "[exTool ''my_tool'', exTool ''Bash'']" INLINE_CAPS]
  have g2: "groupMcpByNamespace exClassify [exTool ''my_tool'', exTool ''Bash'']
     = [exTool ''my_tool'', exTool ''Bash'']"
    by (simp add: groupMcpByNamespace_def exTool_def detectCategory_def firstData_def
        exClassify_def)
  from u have "renderToolActivity exClassify exSets [exTool ''my_tool'', exTool ''Bash'']
       INLINE_CAPS
     = concat (map (\<lambda>tool. renderSection exClassify tool INLINE_CAPS @ [''''])
         (sortByCategoryOrder exSets
            (groupMcpByNamespace exClassify [exTool ''my_tool'', exTool ''Bash''])))"
    by blast
  then have f: "renderToolActivity exClassify exSets [exTool ''my_tool'', exTool ''Bash'']
       INLINE_CAPS
     = [''### Shell (1 calls)'', '''', ''*...and 1 more shell calls (all exit 0)*'', '''', '''',
        ''### MCP (1 calls)'', '''', ''- *...and 1 more*'', '''', '''']"
    by (simp only: g2 c)
       (simp add: renderSection_def detectCategory_def firstData_def exTool_def exClassify_def
          renderCompactSection_def renderShellSection_def compactLabel_def compactCap_def
          COMPACT_LABELS_def errorStr_def INLINE_CAPS_def show_int_def show_nat.simps digit_def)
  from a b c d e f ex_orders(2,4) show ?thesis by blast
qed

subsection \<open>MCP namespace grouping\<close>

lemma mergeSamples_take:
  "mergeSamples tools = take MCP_GROUP_SAMPLE_CAP (concat (map samples tools))"
proof -
  have "\<And>acc. foldl (\<lambda>merged s. if length merged < n then merged @ [s] else merged) acc xs
      = acc @ take (n - length acc) xs" for n :: nat and xs :: "ToolSample list"
  proof (induction xs)
    case Nil
    show ?case by simp
  next
    case (Cons x xs)
    show ?case
    proof (cases "length acc < n")
      case True
      then obtain k where k: "n - length acc = Suc k" by (cases "n - length acc") auto
      then have "n - Suc (length acc) = k" by arith
      with True k Cons show ?thesis by simp
    next
      case False
      with Cons show ?thesis by simp
    qed
  qed
  from this [of MCP_GROUP_SAMPLE_CAP "[]" "concat (map samples tools)"]
  show ?thesis by (simp add: mergeSamples_def)
qed

lemma foldl_plus_sum: "foldl (\<lambda>s t. s + f t) (a::int) ts = a + sum_list (map f ts)"
  by (induction ts arbitrary: a) simp_all

lemma mergeGroup_eq:
  "mergeGroup ns tools =
     \<lparr> name = ''MCP: '' @ ns, count = sum_list (map count tools),
       errorCount = (if 0 < sum_list (map errorCountOr0 tools)
                     then Some (sum_list (map errorCountOr0 tools)) else None),
       samples = take 5 (concat (map samples tools)) \<rparr>"
  by (simp add: mergeGroup_def Let_def foldl_plus_sum mergeSamples_take MCP_GROUP_SAMPLE_CAP_def)

lemma groupScan_eq:
  "groupScan classify xs (res, g)
     = (res @ filter (\<lambda>t. \<not> isNamespaced classify t) xs,
        foldl (\<lambda>g t. nsPush (namespaceOf t) t g) g (filter (isNamespaced classify) xs))"
proof (induction xs arbitrary: res g)
  case Nil
  show ?case by simp
next
  case (Cons x xs)
  show ?case
    by (simp add: Cons.IH isNamespaced_def namespaceOf_def Let_def not_less)
qed

lemma firstSeen_snoc:
  "firstSeen (xs @ [x]) = (if x \<in> set xs then firstSeen xs else firstSeen xs @ [x])"
  by (simp add: firstSeen_def)

lemma set_firstSeen: "set (firstSeen xs) = set xs"
  by (simp add: firstSeen_def)

lemma distinct_firstSeen: "distinct (firstSeen xs)"
  by (simp add: firstSeen_def)

lemma nsPush_map:
  "distinct nss \<Longrightarrow>
   nsPush k c (map (\<lambda>ns. (ns, f ns)) nss)
     = (if k \<in> set nss
        then map (\<lambda>ns. (ns, if ns = k then f ns @ [c] else f ns)) nss
        else map (\<lambda>ns. (ns, f ns)) nss @ [(k, [c])])"
  by (induction nss) auto

lemma pushAll_buckets:
  "foldl (\<lambda>g t. nsPush (namespaceOf t) t g) [] cs
     = map (\<lambda>ns. (ns, filter (\<lambda>t. namespaceOf t = ns) cs)) (firstSeen (map namespaceOf cs))"
proof (induction cs rule: rev_induct)
  case Nil
  show ?case by (simp add: firstSeen_def)
next
  case (snoc c cs)
  let ?nss = "firstSeen (map namespaceOf cs)"
  have d: "distinct ?nss" by (rule distinct_firstSeen)
  have s: "set ?nss = namespaceOf ` set cs" by (simp add: set_firstSeen)
  show ?case
  proof (cases "namespaceOf c \<in> namespaceOf ` set cs")
    case True
    then show ?thesis
      using s by (simp add: snoc.IH nsPush_map [OF d] firstSeen_snoc)
  next
    case False
    then have "filter (\<lambda>t. namespaceOf t = namespaceOf c) cs = []"
      by (force simp add: filter_empty_conv image_iff)
    with False show ?thesis
      using s by (auto simp add: snoc.IH nsPush_map [OF d] firstSeen_snoc)
  qed
qed

lemma groupMcp_char:
  "groupMcpByNamespace classify xs
     = filter (\<lambda>t. \<not> isNamespaced classify t) xs
       @ map (\<lambda>ns. emitGroup (ns, bucketOf classify xs ns))
           (firstSeen (map namespaceOf (filter (isNamespaced classify) xs)))"
  by (simp add: groupMcpByNamespace_def groupScan_eq pushAll_buckets bucketOf_def comp_def)

lemma emitGroup_many:
  "2 \<le> length b \<Longrightarrow> emitGroup (ns, b) = mergeGroup ns b"
proof -
  assume "2 \<le> length b"
  then obtain a c r where "b = a # c # r"
    by (cases b; cases "tl b") auto
  then show ?thesis by simp
qed

lemma mergeGroup_not_namespaced: "\<not> isNamespaced classify (mergeGroup ns b)"
  by (simp add: isNamespaced_def mergeGroup_eq)

lemma bucketOf_member:
  "t \<in> set (bucketOf classify xs ns) \<Longrightarrow> isNamespaced classify t \<and> namespaceOf t = ns"
  by (simp add: bucketOf_def)

lemma namespaced_of_emitted:
  "map namespaceOf
     (filter (isNamespaced classify) (map (\<lambda>ns. emitGroup (ns, bucketOf classify xs ns)) nss))
     = filter (\<lambda>ns. length (bucketOf classify xs ns) = 1) nss"
proof (induction nss)
  case Nil
  show ?case by simp
next
  case (Cons ns nss)
  show ?case
  proof (cases "bucketOf classify xs ns")
    case Nil
    then show ?thesis
      using Cons by (simp add: mergeGroup_not_namespaced)
  next
    case (Cons t r)
    note b = this
    show ?thesis
    proof (cases r)
      case Nil
      with b have "t \<in> set (bucketOf classify xs ns)" by simp
      then have "isNamespaced classify t \<and> namespaceOf t = ns" by (rule bucketOf_member)
      with Nil b Cons.IH show ?thesis by simp
    next
      case (Cons u r')
      with b have "2 \<le> length (bucketOf classify xs ns)" by simp
      then have "emitGroup (ns, bucketOf classify xs ns) = mergeGroup ns (bucketOf classify xs ns)"
        by (rule emitGroup_many)
      with Cons b Cons.IH show ?thesis by (simp add: mergeGroup_not_namespaced)
    qed
  qed
qed

lemma grouped_distinct:
  "distinct (map namespaceOf (filter (isNamespaced classify) (groupMcpByNamespace classify xs)))"
  by (simp add: groupMcp_char namespaced_of_emitted distinct_firstSeen)

lemma filter_same_key:
  "distinct (map f cs) \<Longrightarrow> t \<in> set cs \<Longrightarrow> filter (\<lambda>u. f u = f t) cs = [t]"
proof (induction cs)
  case Nil
  then show ?case by simp
next
  case (Cons c cs)
  show ?case
  proof (cases "t = c")
    case True
    from Cons.prems(1) have "f c \<notin> f ` set cs" by simp
    then have "\<forall>u \<in> set cs. f u \<noteq> f c" by (metis imageI)
    then have "filter (\<lambda>u. f u = f c) cs = []" by (simp add: filter_empty_conv)
    with True show ?thesis by simp
  next
    case False
    with Cons.prems have t: "t \<in> set cs" and d: "distinct (map f cs)" by auto
    from Cons.prems(1) have "f c \<notin> f ` set cs" by simp
    with t have "f c \<noteq> f t" by (metis imageI)
    with Cons.IH [OF d t] show ?thesis by simp
  qed
qed

lemma firstSeen_distinct: "distinct xs \<Longrightarrow> firstSeen xs = xs"
  by (simp add: firstSeen_def distinct_remdups_id)

lemma group_of_distinct:
  assumes "distinct (map namespaceOf (filter (isNamespaced classify) ys))"
  shows "groupMcpByNamespace classify ys
     = filter (\<lambda>t. \<not> isNamespaced classify t) ys @ filter (isNamespaced classify) ys"
proof -
  let ?cs = "filter (isNamespaced classify) ys"
  have "map (\<lambda>ns. emitGroup (ns, bucketOf classify ys ns)) (map namespaceOf ?cs) = ?cs"
  proof -
    have "\<And>t. t \<in> set ?cs \<Longrightarrow> emitGroup (namespaceOf t, bucketOf classify ys (namespaceOf t)) = t"
    proof -
      fix t assume "t \<in> set ?cs"
      then have "filter (\<lambda>u. namespaceOf u = namespaceOf t) ?cs = [t]"
        by (rule filter_same_key [OF assms])
      then show "emitGroup (namespaceOf t, bucketOf classify ys (namespaceOf t)) = t"
        by (simp add: bucketOf_def)
    qed
    then have "map (\<lambda>t. emitGroup (namespaceOf t, bucketOf classify ys (namespaceOf t))) ?cs = ?cs"
      by (intro map_idI) simp
    then show ?thesis by (simp add: comp_def)
  qed
  then show ?thesis
    by (simp add: groupMcp_char firstSeen_distinct [OF assms])
qed

lemma regroup_partition:
  "groupMcpByNamespace classify (groupMcpByNamespace classify xs)
     = filter (\<lambda>t. \<not> isNamespaced classify t) (groupMcpByNamespace classify xs)
       @ filter (isNamespaced classify) (groupMcpByNamespace classify xs)"
  by (rule group_of_distinct [OF grouped_distinct])

lemma regroup_fixed:
  "groupMcpByNamespace classify (groupMcpByNamespace classify (groupMcpByNamespace classify xs))
     = groupMcpByNamespace classify (groupMcpByNamespace classify xs)"
proof -
  let ?ys = "groupMcpByNamespace classify xs"
  let ?zs = "groupMcpByNamespace classify ?ys"
  have z: "?zs = filter (\<lambda>t. \<not> isNamespaced classify t) ?ys @ filter (isNamespaced classify) ?ys"
    by (rule regroup_partition)
  have f: "filter (isNamespaced classify) ?zs = filter (isNamespaced classify) ?ys"
    by (simp add: z)
  have n: "filter (\<lambda>t. \<not> isNamespaced classify t) ?zs = filter (\<lambda>t. \<not> isNamespaced classify t) ?ys"
    by (simp add: z)
  have "distinct (map namespaceOf (filter (isNamespaced classify) ?zs))"
    by (simp only: f grouped_distinct)
  then have "groupMcpByNamespace classify ?zs
      = filter (\<lambda>t. \<not> isNamespaced classify t) ?zs @ filter (isNamespaced classify) ?zs"
    by (rule group_of_distinct)
  then show ?thesis by (simp only: f n) (simp only: z [symmetric])
qed

lemma regroup_mset:
  "mset (groupMcpByNamespace classify (groupMcpByNamespace classify xs))
     = mset (groupMcpByNamespace classify xs)"
  by (simp add: regroup_partition)

lemma bucket_nonempty:
  "ns \<in> set (firstSeen (map namespaceOf (filter (isNamespaced classify) xs)))
   \<Longrightarrow> bucketOf classify xs ns \<noteq> []"
  by (auto simp add: set_firstSeen bucketOf_def filter_empty_conv)

lemma ex_group_jira_first:
  "groupMcpByNamespace exClassify [exJira, exGithubList, exGithubCreate]
     = [exJira, exGithubMerged]"
  by (simp add: groupMcpByNamespace_def exGithubList_def exGithubCreate_def exJira_def
      exGithubMerged_def exMcpTool_def exMcpSample_def detectCategory_def firstData_def
      mergeGroup_def mergeSamples_def MCP_GROUP_SAMPLE_CAP_def errorCountOr0_def Let_def)

lemma ex_regroup:
  "groupMcpByNamespace exClassify [exJira, exGithubMerged] = [exGithubMerged, exJira]"
  by (simp add: groupMcpByNamespace_def exJira_def
      exGithubMerged_def exMcpTool_def exMcpSample_def detectCategory_def firstData_def
      Let_def)

text \<open>
  The example of the specification, with the two \<^verbatim>\<open>github\<close> tools first: the merged entry
  comes before \<^verbatim>\<open>mcp__jira__search\<close>, the member of a bucket of one, which passes through
  unchanged. A merged entry is not appended after all entries that pass through.
\<close>

theorem mcp_group_order_counterexample:
  "groupMcpByNamespace exClassify [exGithubList, exGithubCreate, exJira]
     = [exGithubMerged, exJira]"
  by (simp add: groupMcpByNamespace_def exGithubList_def exGithubCreate_def exJira_def
      exGithubMerged_def exMcpTool_def exMcpSample_def detectCategory_def firstData_def
      mergeGroup_def mergeSamples_def MCP_GROUP_SAMPLE_CAP_def errorCountOr0_def Let_def)

text \<open>
  C2, as the code has it. The aggregates that are not bucketed (category other than
  \<^verbatim>\<open>mcp\<close>, or a name that does not start with \<^verbatim>\<open>mcp__\<close> or has fewer than three parts)
  come first, untouched and in input order. After them comes one entry per namespace, in
  the order in which the namespaces first occur: the member itself when the bucket has
  one member, and otherwise one merged entry, named after the namespace, whose count is
  the sum of the members' counts, whose error count is the sum of the members' error
  counts and is absent when that sum is not positive, and whose samples are the first
  five of the members' samples in input order. No bucket is empty.
\<close>

theorem mcp_grouping:
  "groupMcpByNamespace classify summaries
     = filter (\<lambda>t. \<not> isNamespaced classify t) summaries
       @ map (\<lambda>ns. emitGroup (ns, bucketOf classify summaries ns))
           (firstSeen (map namespaceOf (filter (isNamespaced classify) summaries)))
   \<and> (\<forall>ns \<in> set (firstSeen (map namespaceOf (filter (isNamespaced classify) summaries))).
         bucketOf classify summaries ns \<noteq> [])
   \<and> (\<forall>ns t. emitGroup (ns, [t]) = t)
   \<and> (\<forall>ns b. 2 \<le> length b \<longrightarrow>
         emitGroup (ns, b)
           = \<lparr> name = ''MCP: '' @ ns, count = sum_list (map count b),
               errorCount = (if 0 < sum_list (map errorCountOr0 b)
                             then Some (sum_list (map errorCountOr0 b)) else None),
               samples = take 5 (concat (map samples b)) \<rparr>)"
proof -
  have a: "\<forall>ns b. 2 \<le> length b \<longrightarrow>
         emitGroup (ns, b)
           = \<lparr> name = ''MCP: '' @ ns, count = sum_list (map count b),
               errorCount = (if 0 < sum_list (map errorCountOr0 b)
                             then Some (sum_list (map errorCountOr0 b)) else None),
               samples = take 5 (concat (map samples b)) \<rparr>"
    by (simp add: emitGroup_many mergeGroup_eq)
  have b: "\<forall>ns t. emitGroup (ns, [t]) = t" by simp
  have c: "\<forall>ns \<in> set (firstSeen (map namespaceOf (filter (isNamespaced classify) summaries))).
         bucketOf classify summaries ns \<noteq> []"
    using bucket_nonempty by blast
  from groupMcp_char [of classify summaries] a b c show ?thesis by blast
qed

theorem mcp_grouping_witness:
  "groupMcpByNamespace exClassify [exJira, exGithubList, exGithubCreate]
     = [exJira, exGithubMerged]
   \<and> bucketOf exClassify [exJira, exGithubList, exGithubCreate] ''github''
     = [exGithubList, exGithubCreate]
   \<and> emitGroup (''github'', [exGithubList, exGithubCreate]) = exGithubMerged
   \<and> emitGroup (''jira'', [exJira]) = exJira"
proof -
  let ?xs = "[exJira, exGithubList, exGithubCreate]"
  note t = mcp_grouping [of exClassify ?xs]
  have n: "isNamespaced exClassify exJira \<and> isNamespaced exClassify exGithubList
      \<and> isNamespaced exClassify exGithubCreate"
    by (simp add: isNamespaced_def exJira_def exGithubList_def exGithubCreate_def exMcpTool_def
        exMcpSample_def detectCategory_def firstData_def)
  have k: "namespaceOf exJira = ''jira'' \<and> namespaceOf exGithubList = ''github''
      \<and> namespaceOf exGithubCreate = ''github''"
    by (simp add: namespaceOf_def exJira_def exGithubList_def exGithubCreate_def exMcpTool_def)
  have bj: "bucketOf exClassify ?xs ''jira'' = [exJira]"
    by (simp add: bucketOf_def n k)
  have bg: "bucketOf exClassify ?xs ''github'' = [exGithubList, exGithubCreate]"
    by (simp add: bucketOf_def n k)
  have fs: "firstSeen (map namespaceOf (filter (isNamespaced exClassify) ?xs)) = [''jira'', ''github'']"
    by (simp add: firstSeen_def n k)
  from t have e: "\<forall>ns b. 2 \<le> length b \<longrightarrow>
         emitGroup (ns, b)
           = \<lparr> name = ''MCP: '' @ ns, count = sum_list (map count b),
               errorCount = (if 0 < sum_list (map errorCountOr0 b)
                             then Some (sum_list (map errorCountOr0 b)) else None),
               samples = take 5 (concat (map samples b)) \<rparr>"
    by blast
  have l: "2 \<le> length [exGithubList, exGithubCreate]" by simp
  from e [rule_format, OF l, of "''github''"]
  have "emitGroup (''github'', [exGithubList, exGithubCreate])
      = \<lparr> name = ''MCP: '' @ ''github'',
          count = sum_list (map count [exGithubList, exGithubCreate]),
          errorCount = (if 0 < sum_list (map errorCountOr0 [exGithubList, exGithubCreate])
                        then Some (sum_list (map errorCountOr0 [exGithubList, exGithubCreate]))
                        else None),
          samples = take 5 (concat (map samples [exGithubList, exGithubCreate])) \<rparr>" .
  then have m: "emitGroup (''github'', [exGithubList, exGithubCreate]) = exGithubMerged"
    by (simp add: exGithubList_def exGithubCreate_def exGithubMerged_def exMcpTool_def
        errorCountOr0_def)
  from t have s: "emitGroup (''jira'', [exJira]) = exJira" by blast
  from t have "groupMcpByNamespace exClassify ?xs
     = filter (\<lambda>t. \<not> isNamespaced exClassify t) ?xs
       @ map (\<lambda>ns. emitGroup (ns, bucketOf exClassify ?xs ns))
           (firstSeen (map namespaceOf (filter (isNamespaced exClassify) ?xs)))"
    by blast
  moreover from m have "mergeGroup ''github'' [exGithubList, exGithubCreate] = exGithubMerged"
    by simp
  ultimately have "groupMcpByNamespace exClassify ?xs = [exJira, exGithubMerged]"
    by (simp only: fs) (simp add: n bj bg)
  with bg m s show ?thesis by blast
qed

subsection \<open>Grouping the output of the grouping\<close>

text \<open>
  With \<^verbatim>\<open>mcp__jira__search\<close> before the two \<^verbatim>\<open>github\<close> tools, the grouping yields the
  \<^verbatim>\<open>jira\<close> entry and then the merged entry; grouping that output again yields the merged
  entry first: the output has changed.
\<close>

theorem regroup_counterexample:
  "groupMcpByNamespace exClassify
     (groupMcpByNamespace exClassify [exJira, exGithubList, exGithubCreate])
     = [exGithubMerged, exJira]
   \<and> groupMcpByNamespace exClassify [exJira, exGithubList, exGithubCreate]
     = [exJira, exGithubMerged]
   \<and> [exGithubMerged, exJira] \<noteq> [exJira, exGithubMerged]"
  by (simp add: ex_group_jira_first ex_regroup) (simp add: exJira_def exGithubMerged_def exMcpTool_def)

text \<open>
  C9, as the code has it. Grouping the output of the grouping merges nothing: the
  result holds the same entries, the entries that are not bucketed first and the
  (single-member) bucketed ones after them, each part in its order; so the result is a
  permutation of the output, and grouping it once more leaves it unchanged.
\<close>

theorem regrouping:
  "groupMcpByNamespace classify (groupMcpByNamespace classify summaries)
     = filter (\<lambda>t. \<not> isNamespaced classify t) (groupMcpByNamespace classify summaries)
       @ filter (isNamespaced classify) (groupMcpByNamespace classify summaries)
   \<and> mset (groupMcpByNamespace classify (groupMcpByNamespace classify summaries))
     = mset (groupMcpByNamespace classify summaries)
   \<and> groupMcpByNamespace classify
       (groupMcpByNamespace classify (groupMcpByNamespace classify summaries))
     = groupMcpByNamespace classify (groupMcpByNamespace classify summaries)"
  using regroup_partition [of classify summaries] regroup_mset [of classify summaries]
    regroup_fixed [of classify summaries]
  by blast

theorem regrouping_witness:
  "groupMcpByNamespace exClassify
     (groupMcpByNamespace exClassify [exJira, exGithubList, exGithubCreate])
     = [exGithubMerged, exJira]
   \<and> mset (groupMcpByNamespace exClassify
             (groupMcpByNamespace exClassify [exJira, exGithubList, exGithubCreate]))
     = mset [exJira, exGithubMerged]
   \<and> groupMcpByNamespace exClassify [exGithubMerged, exJira] = [exGithubMerged, exJira]"
proof -
  let ?xs = "[exJira, exGithubList, exGithubCreate]"
  note t = regrouping [of exClassify ?xs]
  have g: "groupMcpByNamespace exClassify ?xs = [exJira, exGithubMerged]"
    by (rule ex_group_jira_first)
  have n: "isNamespaced exClassify exJira \<and> \<not> isNamespaced exClassify exGithubMerged"
    by (simp add: isNamespaced_def exJira_def exGithubMerged_def exMcpTool_def
        exMcpSample_def detectCategory_def firstData_def)
  from t have "groupMcpByNamespace exClassify (groupMcpByNamespace exClassify ?xs)
     = filter (\<lambda>t. \<not> isNamespaced exClassify t) (groupMcpByNamespace exClassify ?xs)
       @ filter (isNamespaced exClassify) (groupMcpByNamespace exClassify ?xs)"
    by blast
  then have a: "groupMcpByNamespace exClassify (groupMcpByNamespace exClassify ?xs)
     = [exGithubMerged, exJira]"
    by (simp add: g n)
  from t have "groupMcpByNamespace exClassify
       (groupMcpByNamespace exClassify (groupMcpByNamespace exClassify ?xs))
     = groupMcpByNamespace exClassify (groupMcpByNamespace exClassify ?xs)"
    by blast
  then have c: "groupMcpByNamespace exClassify [exGithubMerged, exJira] = [exGithubMerged, exJira]"
    by (simp add: a)
  from t have "mset (groupMcpByNamespace exClassify (groupMcpByNamespace exClassify ?xs))
     = mset (groupMcpByNamespace exClassify ?xs)"
    by blast
  then have b: "mset (groupMcpByNamespace exClassify (groupMcpByNamespace exClassify ?xs))
     = mset [exJira, exGithubMerged]"
    by (simp only: g)
  from a b c show ?thesis by blast
qed

subsection \<open>Structure of the document\<close>

text \<open>
  The elements of the array \<^verbatim>\<open>lines\<close> that start with \<^verbatim>\<open>## \<close>, section by section. The
  renderers of the Tool Activity section and the list sections prefix every element they
  push, so only the headings of the assembler and the reproduced message texts can start
  with \<^verbatim>\<open>## \<close>.
\<close>

lemma no_h2_quoted: "filter isH2 (quoted ls) = []"
  by (induction ls) (simp_all add: quoted_def isH2_def)

lemma no_h2_renderDiff: "filter isH2 (renderDiff diff n) = []"
  by (simp add: renderDiff_def Let_def no_h2_quoted isH2_def)

lemma no_h2_summaryBlock: "filter isH2 (summaryBlock s) = []"
  by (simp add: summaryBlock_def isH2_def)

lemma no_h2_shell: "filter isH2 (renderShellSample s n) = []"
  by (simp add: renderShellSample_def no_h2_summaryBlock no_h2_quoted isH2_def
      split: option.splits)

lemma no_h2_write: "filter isH2 (renderWriteSample s n) = []"
  by (simp add: renderWriteSample_def no_h2_summaryBlock no_h2_renderDiff isH2_def
      split: option.splits)

lemma no_h2_edit: "filter isH2 (renderEditSample s n) = []"
  by (simp add: renderEditSample_def no_h2_summaryBlock no_h2_renderDiff isH2_def
      split: option.splits)

lemma no_h2_read: "filter isH2 (map readEntry xs) = []"
  by (induction xs) (simp_all add: readEntry_def isH2_def split: option.splits)

lemma no_h2_grep: "filter isH2 (map grepEntry xs) = []"
  by (induction xs) (simp_all add: grepEntry_def isH2_def split: option.splits)

lemma no_h2_glob: "filter isH2 (map globEntry xs) = []"
  by (induction xs) (simp_all add: globEntry_def isH2_def split: option.splits)

lemma no_h2_compact: "filter isH2 (map (\<lambda>s. compactEntry s cat) xs) = []"
  by (induction xs) (simp_all add: compactEntry_def isH2_def)

lemma no_h2_fallback: "filter isH2 (map fallbackEntry xs) = []"
  by (induction xs) (simp_all add: fallbackEntry_def isH2_def)

lemma filter_h2_concat_map:
  "(\<And>x. filter isH2 (f x) = []) \<Longrightarrow> filter isH2 (concat (map f xs)) = []"
  by (induction xs) simp_all

lemma no_h2_shellSection: "filter isH2 (renderShellSection tool caps) = []"
  by (simp add: renderShellSection_def Let_def filter_h2_concat_map no_h2_shell isH2_def)

lemma no_h2_writeSection: "filter isH2 (renderWriteSection tool caps) = []"
  by (simp add: renderWriteSection_def Let_def filter_h2_concat_map no_h2_write isH2_def)

lemma no_h2_editSection: "filter isH2 (renderEditSection tool caps) = []"
  by (simp add: renderEditSection_def Let_def filter_h2_concat_map no_h2_edit isH2_def)

lemma no_h2_readSection: "filter isH2 (renderReadSection tool caps) = []"
  by (simp add: renderReadSection_def Let_def no_h2_read isH2_def)

lemma no_h2_grepSection: "filter isH2 (renderGrepSection tool caps) = []"
  by (simp add: renderGrepSection_def Let_def no_h2_grep isH2_def)

lemma no_h2_globSection: "filter isH2 (renderGlobSection tool caps) = []"
  by (simp add: renderGlobSection_def Let_def no_h2_glob isH2_def)

lemma no_h2_compactSection: "filter isH2 (renderCompactSection tool cat caps) = []"
  by (simp add: renderCompactSection_def Let_def no_h2_compact isH2_def)

lemma no_h2_fallbackSection: "filter isH2 (renderFallbackSection tool) = []"
  by (simp add: renderFallbackSection_def Let_def no_h2_fallback isH2_def)

lemma no_h2_section: "filter isH2 (renderSection classify tool caps @ ['''']) = []"
  by (simp add: renderSection_def Let_def no_h2_shellSection no_h2_writeSection
      no_h2_editSection no_h2_readSection no_h2_grepSection no_h2_globSection
      no_h2_compactSection no_h2_fallbackSection isH2_def)

lemma no_h2_toolActivity: "filter isH2 (renderToolActivity classify sets tools caps) = []"
  by (simp only: renderToolActivity_def Let_def filter_h2_concat_map [of "\<lambda>tool. renderSection classify tool caps @ ['''']", OF no_h2_section])

lemma h2_title: "filter isH2 titleLines = [''## Session Overview'']"
  by (simp add: titleLines_def isH2_def)

lemma h2_overview:
  "filter isH2 (overviewTable labels toLocaleString session sessionNotes nf nm) = []"
  by (simp add: overviewTable_def modelRows_def isH2_def split: option.splits)

lemma h2_summary:
  "filter isH2 (summarySection session)
     = (if truthyStr (session_summary session) then [''## Summary''] else [])"
  by (simp add: summarySection_def isH2_def)

lemma h2_compacted:
  "filter isH2 (compactedSection sessionNotes)
     = (if truthyStr (notesField notes_compactSummary sessionNotes)
        then [''## Session Context (Compacted)''] else [])"
  by (simp add: compactedSection_def isH2_def)

lemma h2_toolActivity:
  "filter isH2 (toolActivitySection classify sets tools mode)
     = (if tools \<noteq> [] then [''## Tool Activity''] else [])"
  by (simp add: toolActivitySection_def no_h2_toolActivity) (simp add: isH2_def)

lemma no_h2_thoughts: "filter isH2 (map (\<lambda>thought. ''- '' @ thought) xs) = []"
  by (induction xs) (simp_all add: isH2_def)

lemma h2_keyDecisions:
  "filter isH2 (keyDecisionsSection sessionNotes)
     = (case notesField notes_reasoning sessionNotes of
          None \<Rightarrow> []
        | Some reasoning \<Rightarrow> (if reasoning \<noteq> [] then [''## Key Decisions''] else []))"
  by (simp add: keyDecisionsSection_def no_h2_thoughts split: option.splits) (simp add: isH2_def)

lemma h2_messages:
  "\<forall>m \<in> set ms. \<not> isH2 (contentLine m) \<Longrightarrow> filter isH2 (concat (map messageLines ms)) = []"
  by (induction ms) (simp_all add: messageLines_def isH2_def)

lemma lastTen_empty: "(lastTen xs = []) = (xs = [])"
  by (cases xs) (simp_all add: lastTen_def)

lemma h2_recent:
  "\<forall>m \<in> set (lastTen messages). \<not> isH2 (contentLine m) \<Longrightarrow>
   filter isH2 (recentConversationSection messages)
     = (if messages \<noteq> [] then [''## Recent Conversation''] else [])"
  by (simp add: recentConversationSection_def Let_def h2_messages lastTen_empty)
     (simp add: isH2_def)

lemma no_h2_files: "filter isH2 (map (\<lambda>file. ''- `'' @ file @ ''`'') xs) = []"
  by (induction xs) (simp_all add: isH2_def)

lemma no_h2_tasks: "filter isH2 (map (\<lambda>task. ''- [ ] '' @ task) xs) = []"
  by (induction xs) (simp_all add: isH2_def)

lemma h2_files:
  "filter isH2 (filesModifiedSection files)
     = (if files \<noteq> [] then [''## Files Modified''] else [])"
  by (simp add: filesModifiedSection_def no_h2_files) (simp add: isH2_def)

lemma h2_tasks:
  "filter isH2 (pendingTasksSection tasks)
     = (if tasks \<noteq> [] then [''## Pending Tasks''] else [])"
  by (simp add: pendingTasksSection_def no_h2_tasks) (simp add: isH2_def)

lemma h2_closing: "filter isH2 closingLines = []"
  by (simp add: closingLines_def closingSentence_def isH2_def)

lemma handoff_h2:
  assumes "\<forall>m \<in> set (lastTen messages). \<not> isH2 (contentLine m)"
  shows "filter isH2
     (handoffLines labels toLocaleString classify sets session messages filesModified
        pendingTasks toolSummaries sessionNotes mode)
     = [''## Session Overview'']
       @ (if truthyStr (session_summary session) then [''## Summary''] else [])
       @ (if truthyStr (notesField notes_compactSummary sessionNotes)
          then [''## Session Context (Compacted)''] else [])
       @ (if toolSummaries \<noteq> [] then [''## Tool Activity''] else [])
       @ (case notesField notes_reasoning sessionNotes of
            None \<Rightarrow> []
          | Some reasoning \<Rightarrow> (if reasoning \<noteq> [] then [''## Key Decisions''] else []))
       @ (if messages \<noteq> [] then [''## Recent Conversation''] else [])
       @ (if filesModified \<noteq> [] then [''## Files Modified''] else [])
       @ (if pendingTasks \<noteq> [] then [''## Pending Tasks''] else [])"
  by (simp only: handoffLines_def filter_append h2_title h2_overview h2_summary h2_compacted
      h2_toolActivity h2_keyDecisions h2_recent [OF assms] h2_files h2_tasks h2_closing
      append_Nil append_Nil2)

text \<open>
  From the array to the document. \<^verbatim>\<open>lines.join('\n')\<close> puts an element that contains line
  breaks on several lines of the document: the lines of the document are the lines of the
  elements, in order. The first line of an element starts with \<^verbatim>\<open>## \<close> exactly when the
  element does.
\<close>

lemma split_nl_nonempty: "split_nl s \<noteq> []"
  by (induction s) (auto elim: consHead.elims)

lemma consHead_append: "xs \<noteq> [] \<Longrightarrow> consHead c (xs @ ys) = consHead c xs @ ys"
  by (cases xs) simp_all

lemma split_nl_append:
  "split_nl (a @ CHR 0x0A # b) = split_nl a @ split_nl b"
  by (induction a) (simp_all add: consHead_append split_nl_nonempty)

lemma split_nl_join_concat:
  "ls \<noteq> [] \<Longrightarrow> split_nl (join [CHR 0x0A] ls) = concat (map split_nl ls)"
  by (induction "[CHR 0x0A]" ls rule: join.induct) (simp_all add: split_nl_append)

lemma hd_consHead: "xs \<noteq> [] \<Longrightarrow> hd (consHead c xs) = c # hd xs"
  by (cases xs) simp_all

lemma first_line: "hd (split_nl l) = takeWhile (\<lambda>c. c \<noteq> CHR 0x0A) l"
  by (induction l) (simp_all add: hd_consHead split_nl_nonempty)

lemma prefix_takeWhile:
  "CHR 0x0A \<notin> set p \<Longrightarrow> prefix p (takeWhile (\<lambda>c. c \<noteq> CHR 0x0A) l) = prefix p l"
proof (induction p arbitrary: l)
  case Nil
  show ?case by simp
next
  case (Cons a p)
  then show ?case by (cases l) auto
qed

lemma isH2_first_line: "isH2 (hd (split_nl l)) = isH2 l"
  by (simp add: isH2_def first_line prefix_takeWhile)

text \<open>An element without a line break is one line of the document and has no further lines.\<close>

lemma innerLines_single: "CHR 0x0A \<notin> set l \<Longrightarrow> innerLines l = []"
  by (simp add: innerLines_def split_nl_no_nl)

lemma h2_of_element:
  "filter isH2 (split_nl l)
     = (if isH2 l then [hd (split_nl l)] else []) @ filter isH2 (innerLines l)"
proof -
  have "split_nl l = hd (split_nl l) # innerLines l"
    by (simp add: innerLines_def split_nl_nonempty)
  then have "filter isH2 (split_nl l) = filter isH2 (hd (split_nl l) # innerLines l)"
    by simp
  then show ?thesis by (simp add: isH2_first_line)
qed

lemma h2_of_elements:
  assumes "\<forall>l \<in> set ls. filter isH2 (innerLines l) = []"
    and "\<forall>l \<in> set ls. isH2 l \<longrightarrow> CHR 0x0A \<notin> set l"
  shows "filter isH2 (concat (map split_nl ls)) = filter isH2 ls"
  using assms
proof (induction ls)
  case Nil
  show ?case by simp
next
  case (Cons l ls)
  then have ih: "filter isH2 (concat (map split_nl ls)) = filter isH2 ls" by simp
  from Cons.prems have i: "filter isH2 (innerLines l) = []" by simp
  show ?case
  proof (cases "isH2 l")
    case True
    with Cons.prems have "CHR 0x0A \<notin> set l" by simp
    then have "hd (split_nl l) = l" by (auto simp add: first_line takeWhile_eq_all_conv)
    with True i ih show ?thesis by (simp add: h2_of_element)
  next
    case False
    with i ih show ?thesis by (simp add: h2_of_element)
  qed
qed

lemma handoffLines_nonempty:
  "handoffLines labels toLocaleString classify sets session messages filesModified
     pendingTasks toolSummaries sessionNotes mode \<noteq> []"
  by (simp add: handoffLines_def titleLines_def)

lemma markdownLines_concat:
  "markdownLines labels toLocaleString classify sets session messages filesModified
     pendingTasks toolSummaries sessionNotes mode
   = concat (map split_nl
       (handoffLines labels toLocaleString classify sets session messages filesModified
          pendingTasks toolSummaries sessionNotes mode))"
  by (simp add: markdownLines_def split_nl_join_concat handoffLines_nonempty)

lemma heading_no_newline:
  assumes "\<forall>m \<in> set (lastTen messages). \<not> isH2 (contentLine m)"
    and "l \<in> set (handoffLines labels toLocaleString classify sets session messages
       filesModified pendingTasks toolSummaries sessionNotes mode)"
    and "isH2 l"
  shows "CHR 0x0A \<notin> set l"
proof -
  from assms(2,3) have "l \<in> set (filter isH2
       (handoffLines labels toLocaleString classify sets session messages
       filesModified pendingTasks toolSummaries sessionNotes mode))"
    by simp
  then have "l \<in> {''## Session Overview'', ''## Summary'', ''## Session Context (Compacted)'',
      ''## Tool Activity'', ''## Key Decisions'', ''## Recent Conversation'',
      ''## Files Modified'', ''## Pending Tasks''}"
    unfolding handoff_h2 [OF assms(1)]
    by (auto split: if_splits option.splits)
  then show ?thesis by auto
qed

lemma markdown_h2:
  assumes "\<forall>m \<in> set (lastTen messages). \<not> isH2 (contentLine m)"
    and "\<forall>l \<in> set (handoffLines labels toLocaleString classify sets session messages
       filesModified pendingTasks toolSummaries sessionNotes mode).
         filter isH2 (innerLines l) = []"
  shows "filter isH2
     (markdownLines labels toLocaleString classify sets session messages filesModified
        pendingTasks toolSummaries sessionNotes mode)
     = [''## Session Overview'']
       @ (if truthyStr (session_summary session) then [''## Summary''] else [])
       @ (if truthyStr (notesField notes_compactSummary sessionNotes)
          then [''## Session Context (Compacted)''] else [])
       @ (if toolSummaries \<noteq> [] then [''## Tool Activity''] else [])
       @ (case notesField notes_reasoning sessionNotes of
            None \<Rightarrow> []
          | Some reasoning \<Rightarrow> (if reasoning \<noteq> [] then [''## Key Decisions''] else []))
       @ (if messages \<noteq> [] then [''## Recent Conversation''] else [])
       @ (if filesModified \<noteq> [] then [''## Files Modified''] else [])
       @ (if pendingTasks \<noteq> [] then [''## Pending Tasks''] else [])"
proof -
  have "filter isH2
     (markdownLines labels toLocaleString classify sets session messages filesModified
        pendingTasks toolSummaries sessionNotes mode)
     = filter isH2
       (handoffLines labels toLocaleString classify sets session messages filesModified
          pendingTasks toolSummaries sessionNotes mode)"
    unfolding markdownLines_concat
    using assms(2) heading_no_newline [OF assms(1)]
    by (intro h2_of_elements) blast+
  then show ?thesis by (simp only: handoff_h2 [OF assms(1)])
qed

lemma markdown_prefix:
  "take 7 (markdownLines labels toLocaleString classify sets session messages filesModified
       pendingTasks toolSummaries sessionNotes mode)
     = [''# Session Handoff Context'', '''', '''', ''## Session Overview'', '''',
        ''| Field | Value |'', ''|-------|-------|'']"
  by (simp add: markdownLines_concat handoffLines_def titleLines_def overviewTable_def)

lemma closing_no_newline: "split_nl closingSentence = [closingSentence]"
  by (rule split_nl_no_nl) (simp add: closingSentence_def emdash_def)

lemma markdown_suffix:
  "\<exists>body. markdownLines labels toLocaleString classify sets session messages filesModified
       pendingTasks toolSummaries sessionNotes mode
     = body @ [''---'', '''', closingSentence]"
proof -
  have "markdownLines labels toLocaleString classify sets session messages filesModified
       pendingTasks toolSummaries sessionNotes mode
     = concat (map split_nl
        (titleLines
         @ overviewTable labels toLocaleString session sessionNotes
             (length filesModified) (length messages)
         @ summarySection session
         @ compactedSection sessionNotes
         @ toolActivitySection classify sets toolSummaries mode
         @ keyDecisionsSection sessionNotes
         @ recentConversationSection messages
         @ filesModifiedSection filesModified
         @ pendingTasksSection pendingTasks))
       @ [''---'', '''', closingSentence]"
    by (simp add: markdownLines_concat handoffLines_def closingLines_def closing_no_newline)
  then show ?thesis by (rule exI)
qed

lemma markdown_no_tool_heading:
  assumes "\<forall>m \<in> set (lastTen messages). \<not> isH2 (contentLine m)"
    and "\<forall>l \<in> set (handoffLines labels toLocaleString classify sets session messages
       filesModified pendingTasks toolSummaries sessionNotes mode).
         filter isH2 (innerLines l) = []"
    and "toolSummaries = []"
  shows "''## Tool Activity'' \<notin> set
     (markdownLines labels toLocaleString classify sets session messages filesModified
        pendingTasks toolSummaries sessionNotes mode)"
proof
  let ?M = "markdownLines labels toLocaleString classify sets session messages filesModified
        pendingTasks toolSummaries sessionNotes mode"
  assume "''## Tool Activity'' \<in> set ?M"
  moreover have "isH2 ''## Tool Activity''" by (simp add: isH2_def)
  ultimately have "''## Tool Activity'' \<in> set (filter isH2 ?M)" by simp
  then have "''## Tool Activity'' \<in> set
       ([''## Session Overview'']
       @ (if truthyStr (session_summary session) then [''## Summary''] else [])
       @ (if truthyStr (notesField notes_compactSummary sessionNotes)
          then [''## Session Context (Compacted)''] else [])
       @ (if toolSummaries \<noteq> [] then [''## Tool Activity''] else [])
       @ (case notesField notes_reasoning sessionNotes of
            None \<Rightarrow> []
          | Some reasoning \<Rightarrow> (if reasoning \<noteq> [] then [''## Key Decisions''] else []))
       @ (if messages \<noteq> [] then [''## Recent Conversation''] else [])
       @ (if filesModified \<noteq> [] then [''## Files Modified''] else [])
       @ (if pendingTasks \<noteq> [] then [''## Pending Tasks''] else []))"
    by (simp only: markdown_h2 [OF assms(1,2)])
  then show False
    using assms(3) by (auto split: option.splits if_splits)
qed

lemma closing_no_h2: "\<not> prefix ''## '' closingSentence"
  by (simp add: closingSentence_def)

text \<open>
  C8, as the code has it. A call with an invalid \<^verbatim>\<open>updatedAt\<close> throws a \<^verbatim>\<open>RangeError\<close>; every
  other call returns a document. The lines of a returned document (the document split at
  its line feeds) start with the title, two empty lines, \<^verbatim>\<open>## Session Overview\<close>, an empty
  line and the two header rows of the table, and they end with the horizontal rule, an
  empty line and the closing sentence. Provided that no reproduced message text (the
  first 500 characters of one of the last ten messages) starts with \<^verbatim>\<open>## \<close>, and that no
  element of the array \<^verbatim>\<open>lines\<close> has a line after its first that starts with \<^verbatim>\<open>## \<close> (such
  a line can only come from an input text with line breaks), the lines of the document
  that start with \<^verbatim>\<open>## \<close> are exactly \<^verbatim>\<open>## Session Overview\<close> and, in the fixed order, the
  heading of each optional section whose source data is non-empty. With no tool
  summaries the assembler emits no Tool Activity section, and under the same provisos no
  line of the document is \<^verbatim>\<open>## Tool Activity\<close>.
\<close>

theorem document_structure:
  "(session_updatedAt session = None \<longrightarrow>
      generateHandoffMarkdown labels toLocaleString classify sets session messages
        filesModified pendingTasks toolSummaries sessionNotes mode = Inl RangeError)
   \<and> (session_updatedAt session \<noteq> None \<longrightarrow>
      (\<exists>doc. generateHandoffMarkdown labels toLocaleString classify sets session messages
         filesModified pendingTasks toolSummaries sessionNotes mode = Inr doc))
   \<and> (\<forall>doc.
        generateHandoffMarkdown labels toLocaleString classify sets session messages
          filesModified pendingTasks toolSummaries sessionNotes mode = Inr doc \<longrightarrow>
        take 7 (split_nl doc)
          = [''# Session Handoff Context'', '''', '''', ''## Session Overview'', '''',
             ''| Field | Value |'', ''|-------|-------|'']
        \<and> (\<exists>body. split_nl doc = body @ [''---'', '''', closingSentence])
        \<and> ((\<forall>m \<in> set (lastTen messages). \<not> isH2 (contentLine m))
            \<and> (\<forall>l \<in> set (handoffLines labels toLocaleString classify sets session messages
                   filesModified pendingTasks toolSummaries sessionNotes mode).
                 filter isH2 (innerLines l) = []) \<longrightarrow>
            filter isH2 (split_nl doc)
              = [''## Session Overview'']
                @ (if truthyStr (session_summary session) then [''## Summary''] else [])
                @ (if truthyStr (notesField notes_compactSummary sessionNotes)
                   then [''## Session Context (Compacted)''] else [])
                @ (if toolSummaries \<noteq> [] then [''## Tool Activity''] else [])
                @ (case notesField notes_reasoning sessionNotes of
                     None \<Rightarrow> []
                   | Some reasoning \<Rightarrow>
                       (if reasoning \<noteq> [] then [''## Key Decisions''] else []))
                @ (if messages \<noteq> [] then [''## Recent Conversation''] else [])
                @ (if filesModified \<noteq> [] then [''## Files Modified''] else [])
                @ (if pendingTasks \<noteq> [] then [''## Pending Tasks''] else []))
        \<and> ((\<forall>m \<in> set (lastTen messages). \<not> isH2 (contentLine m))
            \<and> (\<forall>l \<in> set (handoffLines labels toLocaleString classify sets session messages
                   filesModified pendingTasks toolSummaries sessionNotes mode).
                 filter isH2 (innerLines l) = [])
            \<and> toolSummaries = [] \<longrightarrow>
            ''## Tool Activity'' \<notin> set (split_nl doc)))
   \<and> (toolSummaries = [] \<longrightarrow> toolActivitySection classify sets toolSummaries mode = [])"
proof -
  let ?H = "handoffLines labels toLocaleString classify sets session messages
          filesModified pendingTasks toolSummaries sessionNotes mode"
  let ?G = "generateHandoffMarkdown labels toLocaleString classify sets session messages
          filesModified pendingTasks toolSummaries sessionNotes mode"
  let ?M = "markdownLines labels toLocaleString classify sets session messages
          filesModified pendingTasks toolSummaries sessionNotes mode"
  have e: "session_updatedAt session = None \<longrightarrow> ?G = Inl RangeError"
    by (simp add: generateHandoffMarkdown_def)
  have v: "session_updatedAt session \<noteq> None \<longrightarrow> (\<exists>doc. ?G = Inr doc)"
    by (auto simp add: generateHandoffMarkdown_def)
  have d: "split_nl doc = ?M" if "?G = Inr doc" for doc
    using that by (auto simp add: generateHandoffMarkdown_def markdownLines_def
        split: option.splits)
  have t: "toolSummaries = [] \<longrightarrow> toolActivitySection classify sets toolSummaries mode = []"
    by (simp add: toolActivitySection_def)
  note p = markdown_prefix [of labels toLocaleString classify sets session messages
      filesModified pendingTasks toolSummaries sessionNotes mode]
  note s = markdown_suffix [of labels toLocaleString classify sets session messages
      filesModified pendingTasks toolSummaries sessionNotes mode]
  note h = markdown_h2 [of messages labels toLocaleString classify sets session
      filesModified pendingTasks toolSummaries sessionNotes mode]
  note n = markdown_no_tool_heading [of messages labels toLocaleString classify sets session
      filesModified pendingTasks toolSummaries sessionNotes mode]
  have b: "\<forall>doc. ?G = Inr doc \<longrightarrow>
        take 7 (split_nl doc)
          = [''# Session Handoff Context'', '''', '''', ''## Session Overview'', '''',
             ''| Field | Value |'', ''|-------|-------|'']
        \<and> (\<exists>body. split_nl doc = body @ [''---'', '''', closingSentence])
        \<and> ((\<forall>m \<in> set (lastTen messages). \<not> isH2 (contentLine m))
            \<and> (\<forall>l \<in> set ?H. filter isH2 (innerLines l) = []) \<longrightarrow>
            filter isH2 (split_nl doc)
              = [''## Session Overview'']
                @ (if truthyStr (session_summary session) then [''## Summary''] else [])
                @ (if truthyStr (notesField notes_compactSummary sessionNotes)
                   then [''## Session Context (Compacted)''] else [])
                @ (if toolSummaries \<noteq> [] then [''## Tool Activity''] else [])
                @ (case notesField notes_reasoning sessionNotes of
                     None \<Rightarrow> []
                   | Some reasoning \<Rightarrow>
                       (if reasoning \<noteq> [] then [''## Key Decisions''] else []))
                @ (if messages \<noteq> [] then [''## Recent Conversation''] else [])
                @ (if filesModified \<noteq> [] then [''## Files Modified''] else [])
                @ (if pendingTasks \<noteq> [] then [''## Pending Tasks''] else []))
        \<and> ((\<forall>m \<in> set (lastTen messages). \<not> isH2 (contentLine m))
            \<and> (\<forall>l \<in> set ?H. filter isH2 (innerLines l) = [])
            \<and> toolSummaries = [] \<longrightarrow>
            ''## Tool Activity'' \<notin> set (split_nl doc))"
  proof (intro allI impI)
    fix doc
    assume "?G = Inr doc"
    then have m: "split_nl doc = ?M" by (rule d)
    show "take 7 (split_nl doc)
          = [''# Session Handoff Context'', '''', '''', ''## Session Overview'', '''',
             ''| Field | Value |'', ''|-------|-------|'']
        \<and> (\<exists>body. split_nl doc = body @ [''---'', '''', closingSentence])
        \<and> ((\<forall>m \<in> set (lastTen messages). \<not> isH2 (contentLine m))
            \<and> (\<forall>l \<in> set ?H. filter isH2 (innerLines l) = []) \<longrightarrow>
            filter isH2 (split_nl doc)
              = [''## Session Overview'']
                @ (if truthyStr (session_summary session) then [''## Summary''] else [])
                @ (if truthyStr (notesField notes_compactSummary sessionNotes)
                   then [''## Session Context (Compacted)''] else [])
                @ (if toolSummaries \<noteq> [] then [''## Tool Activity''] else [])
                @ (case notesField notes_reasoning sessionNotes of
                     None \<Rightarrow> []
                   | Some reasoning \<Rightarrow>
                       (if reasoning \<noteq> [] then [''## Key Decisions''] else []))
                @ (if messages \<noteq> [] then [''## Recent Conversation''] else [])
                @ (if filesModified \<noteq> [] then [''## Files Modified''] else [])
                @ (if pendingTasks \<noteq> [] then [''## Pending Tasks''] else []))
        \<and> ((\<forall>m \<in> set (lastTen messages). \<not> isH2 (contentLine m))
            \<and> (\<forall>l \<in> set ?H. filter isH2 (innerLines l) = [])
            \<and> toolSummaries = [] \<longrightarrow>
            ''## Tool Activity'' \<notin> set (split_nl doc))"
      unfolding m using p s h n by blast
  qed
  from e v b t show ?thesis by blast
qed

text \<open>
  No tool summaries and one message whose text is \<^verbatim>\<open>Plan:\<close>, a line break and
  \<^verbatim>\<open>## Tool Activity\<close>: the text is pushed as one element of the array, and the document
  has a line \<^verbatim>\<open>## Tool Activity\<close> although the list of tool summaries is empty, and it
  comes after \<^verbatim>\<open>## Recent Conversation\<close>. With an invalid date the same call returns no
  document: \<^verbatim>\<open>toISOString\<close> throws.
\<close>

theorem heading_from_message_counterexample:
  "map_option (filter isH2)
     (documentLines
        (generateHandoffMarkdown exLabels show_int exClassify exSets exSession [exPlanMessage]
           [] [] [] None ''inline''))
     = Some [''## Session Overview'', ''## Recent Conversation'', ''## Tool Activity'']
   \<and> generateHandoffMarkdown exLabels show_int exClassify exSets
        (exSession \<lparr> session_updatedAt := None \<rparr>) [exPlanMessage] [] [] [] None ''inline''
     = Inl RangeError"
proof -
  have "filter isH2
     (markdownLines exLabels show_int exClassify exSets exSession [exPlanMessage]
           [] [] [] None ''inline'')
     = [''## Session Overview'', ''## Recent Conversation'', ''## Tool Activity'']"
    unfolding markdownLines_concat
    by (simp add: handoffLines_def titleLines_def overviewTable_def modelRows_def
        summarySection_def compactedSection_def toolActivitySection_def keyDecisionsSection_def
        recentConversationSection_def filesModifiedSection_def pendingTasksSection_def
        closingLines_def closing_no_newline exSession_def exLabels_def notesField_def
        lastTen_def messageLines_def contentLine_def exPlanMessage_def isH2_def
        show_int_def show_nat.simps digit_def closing_no_h2)
  then show ?thesis
    by (simp add: documentLines_def generateHandoffMarkdown_def markdownLines_def exSession_def)
qed

theorem document_structure_witness:
  "map_option (filter isH2)
     (documentLines
        (generateHandoffMarkdown exLabels show_int exClassify exSets exSession [exStepsMessage]
           [''a.ts''] [] [exBash] None ''inline''))
     = Some [''## Session Overview'', ''## Tool Activity'', ''## Recent Conversation'',
             ''## Files Modified'']
   \<and> map_option (filter isH2)
       (documentLines
          (generateHandoffMarkdown exLabels show_int exClassify exSets exSession
             [exStepsMessage] [''a.ts''] [] [] None ''inline''))
     = Some [''## Session Overview'', ''## Recent Conversation'', ''## Files Modified'']
   \<and> map_option (\<lambda>ls. ''## Tool Activity'' \<in> set ls)
       (documentLines
          (generateHandoffMarkdown exLabels show_int exClassify exSets exSession
             [exStepsMessage] [''a.ts''] [] [] None ''inline''))
     = Some False
   \<and> map_option (\<lambda>ls. ''- fix the build'' \<in> set ls)
       (documentLines
          (generateHandoffMarkdown exLabels show_int exClassify exSets exSession
             [exStepsMessage] [''a.ts''] [] [] None ''inline''))
     = Some True
   \<and> documentLines
       (generateHandoffMarkdown exLabels show_int exClassify exSets
          (exSession \<lparr> session_updatedAt := None \<rparr>) [exStepsMessage] [''a.ts''] [] []
          None ''inline'')
     = None"
proof -
  let ?Ha = "handoffLines exLabels show_int exClassify exSets exSession [exStepsMessage]
           [''a.ts''] [] [exBash] None ''inline''"
  let ?Hb = "handoffLines exLabels show_int exClassify exSets exSession [exStepsMessage]
           [''a.ts''] [] [] None ''inline''"
  note a = document_structure [of exSession exLabels show_int exClassify exSets
      "[exStepsMessage]" "[''a.ts'']" "[]" "[exBash]" None "''inline''"]
  note b = document_structure [of exSession exLabels show_int exClassify exSets
      "[exStepsMessage]" "[''a.ts'']" "[]" "[]" None "''inline''"]
  note c = document_structure [of "exSession \<lparr> session_updatedAt := None \<rparr>" exLabels show_int
      exClassify exSets "[exStepsMessage]" "[''a.ts'']" "[]" "[]" None "''inline''"]
  have p1: "\<forall>m \<in> set (lastTen [exStepsMessage]). \<not> isH2 (contentLine m)"
    by (simp add: lastTen_def exStepsMessage_def contentLine_def isH2_def)
  have pa: "\<forall>l \<in> set ?Ha. filter isH2 (innerLines l) = []"
    by (simp add: handoffLines_def titleLines_def overviewTable_def modelRows_def
        summarySection_def compactedSection_def toolActivitySection_def keyDecisionsSection_def
        recentConversationSection_def filesModifiedSection_def pendingTasksSection_def
        closingLines_def closing_no_newline exSession_def exLabels_def notesField_def
        lastTen_def messageLines_def contentLine_def exStepsMessage_def isH2_def innerLines_def
        show_int_def show_nat.simps digit_def capsForMode_def INLINE_CAPS_def
        renderToolActivity_def groupMcpByNamespace_def sortByCategoryOrder_def sortWith_def
        renderSection_def detectCategory_def firstData_def exBash_def exShellSample_def
        exClassify_def renderShellSection_def renderShellSample_def errorStr_def)
  have pb: "\<forall>l \<in> set ?Hb. filter isH2 (innerLines l) = []"
    by (simp add: handoffLines_def titleLines_def overviewTable_def modelRows_def
        summarySection_def compactedSection_def toolActivitySection_def keyDecisionsSection_def
        recentConversationSection_def filesModifiedSection_def pendingTasksSection_def
        closingLines_def closing_no_newline exSession_def exLabels_def notesField_def
        lastTen_def messageLines_def contentLine_def exStepsMessage_def isH2_def innerLines_def
        show_int_def show_nat.simps digit_def)
  have ga: "generateHandoffMarkdown exLabels show_int exClassify exSets exSession
       [exStepsMessage] [''a.ts''] [] [exBash] None ''inline'' = Inr (join [CHR 0x0A] ?Ha)"
    by (simp add: generateHandoffMarkdown_def exSession_def)
  have gb: "generateHandoffMarkdown exLabels show_int exClassify exSets exSession
       [exStepsMessage] [''a.ts''] [] [] None ''inline'' = Inr (join [CHR 0x0A] ?Hb)"
    by (simp add: generateHandoffMarkdown_def exSession_def)
  from a ga p1 pa have "filter isH2 (split_nl (join [CHR 0x0A] ?Ha))
       = [''## Session Overview'']
         @ (if truthyStr (session_summary exSession) then [''## Summary''] else [])
         @ (if truthyStr (notesField notes_compactSummary None)
            then [''## Session Context (Compacted)''] else [])
         @ (if [exBash] \<noteq> [] then [''## Tool Activity''] else [])
         @ (case notesField notes_reasoning None of
              None \<Rightarrow> []
            | Some reasoning \<Rightarrow> (if reasoning \<noteq> [] then [''## Key Decisions''] else []))
         @ (if [exStepsMessage] \<noteq> [] then [''## Recent Conversation''] else [])
         @ (if [''a.ts''] \<noteq> [] then [''## Files Modified''] else [])
         @ (if ([]::string list) \<noteq> [] then [''## Pending Tasks''] else [])"
    by blast
  then have c1: "filter isH2 (split_nl (join [CHR 0x0A] ?Ha))
     = [''## Session Overview'', ''## Tool Activity'', ''## Recent Conversation'',
        ''## Files Modified'']"
    by (simp add: exSession_def notesField_def)
  from b gb p1 pb have "filter isH2 (split_nl (join [CHR 0x0A] ?Hb))
       = [''## Session Overview'']
         @ (if truthyStr (session_summary exSession) then [''## Summary''] else [])
         @ (if truthyStr (notesField notes_compactSummary None)
            then [''## Session Context (Compacted)''] else [])
         @ (if ([]::ToolUsageSummary list) \<noteq> [] then [''## Tool Activity''] else [])
         @ (case notesField notes_reasoning None of
              None \<Rightarrow> []
            | Some reasoning \<Rightarrow> (if reasoning \<noteq> [] then [''## Key Decisions''] else []))
         @ (if [exStepsMessage] \<noteq> [] then [''## Recent Conversation''] else [])
         @ (if [''a.ts''] \<noteq> [] then [''## Files Modified''] else [])
         @ (if ([]::string list) \<noteq> [] then [''## Pending Tasks''] else [])"
    by blast
  then have c2: "filter isH2 (split_nl (join [CHR 0x0A] ?Hb))
     = [''## Session Overview'', ''## Recent Conversation'', ''## Files Modified'']"
    by (simp add: exSession_def notesField_def)
  from b gb p1 pb have c3: "''## Tool Activity'' \<notin> set (split_nl (join [CHR 0x0A] ?Hb))"
    by blast
  have "''- fix the build'' \<in> set (concat (map split_nl ?Hb))"
    by (simp add: handoffLines_def recentConversationSection_def lastTen_def messageLines_def
        contentLine_def exStepsMessage_def)
  then have c4: "''- fix the build'' \<in> set (split_nl (join [CHR 0x0A] ?Hb))"
    by (simp only: split_nl_join_concat [OF handoffLines_nonempty])
  from c have c5: "generateHandoffMarkdown exLabels show_int exClassify exSets
          (exSession \<lparr> session_updatedAt := None \<rparr>) [exStepsMessage] [''a.ts''] [] []
          None ''inline'' = Inl RangeError"
    by simp
  show ?thesis
    by (simp add: documentLines_def ga gb c1 c2 c3 c4 c5)
qed

end
